theory Spec2Isabelle
  imports Complex_Main "HOL-Library.Word"
begin

unbundle bit_operations_syntax

section \<open>Session manager (package session)\<close>

text \<open>
  \<^verbatim>\<open>type Message struct { Role, Content, Timestamp string }\<close> and
  \<^verbatim>\<open>type Session struct { Key string; History []*Message }\<close>.
  Messages are never mutated after \<^verbatim>\<open>AddMessage\<close> creates them, so the
  pointers of the source are modelled by the values they point to.
\<close>

record Message =
  Role :: string
  Content :: string
  Timestamp :: string

record Session =
  Key :: string
  History :: "Message list"

definition MaxHistorySize :: nat where
  "MaxHistorySize = 50"

text \<open>
  \<^verbatim>\<open>func (s *Session) Trim() []*Message\<close>: the session is mutated in place, so the
  model returns the discarded prefix together with the updated session. The \<^verbatim>\<open>nil\<close>
  slice returned when nothing is trimmed is the empty list.
\<close>

definition Trim :: "Session \<Rightarrow> Message list \<times> Session" where
  "Trim s =
     (if length (History s) > MaxHistorySize
      then (take (length (History s) - MaxHistorySize) (History s),
            s\<lparr>History := drop (length (History s) - MaxHistorySize) (History s)\<rparr>)
      else ([], s))"

text \<open>\<^verbatim>\<open>func (s *Session) AddMessage(role, content string)\<close>; the clock reading
  \<^verbatim>\<open>time.Now().Format(time.RFC3339)\<close> is the parameter \<open>now\<close>.\<close>

definition AddMessage :: "string \<Rightarrow> string \<Rightarrow> string \<Rightarrow> Session \<Rightarrow> Session" where
  "AddMessage now role content s =
     s\<lparr>History := History s @ [\<lparr>Role = role, Content = content, Timestamp = now\<rparr>]\<rparr>"

text \<open>
  \<^verbatim>\<open>SessionManager\<close>: the map \<^verbatim>\<open>sessions map[string]*Session\<close> is an association
  list (the order of the list stands for the unspecified iteration order of a Go map),
  and the directory \<^verbatim>\<open>{workspace}/sessions\<close> is a map from file name to the session
  written there (the JSON encoding is not modelled). A \<^verbatim>\<open>*Session\<close> handed out by
  \<^verbatim>\<open>GetOrCreate\<close> aliases the entry of the map, so the operations on it take its key.
\<close>

record SessionManager =
  sessions :: "(string \<times> Session) list"
  files :: "string \<rightharpoonup> Session"

definition GetOrCreate :: "string \<Rightarrow> SessionManager \<Rightarrow> Session \<times> SessionManager" where
  "GetOrCreate key sm =
     (case map_of (sessions sm) key of
        Some s \<Rightarrow> (s, sm)
      | None \<Rightarrow>
          (let s = \<lparr>Key = key, History = []\<rparr>
           in (s, sm\<lparr>sessions := sessions sm @ [(key, s)]\<rparr>)))"

text \<open>Writing through a \<^verbatim>\<open>*Session\<close>: every entry stored under the key is replaced.\<close>

definition put_session :: "string \<Rightarrow> Session \<Rightarrow> SessionManager \<Rightarrow> SessionManager" where
  "put_session key s sm =
     sm\<lparr>sessions := map (\<lambda>(k, v). if k = key then (k, s) else (k, v)) (sessions sm)\<rparr>"

text \<open>
  \<^verbatim>\<open>func (sm *SessionManager) Save(s *Session) error\<close>: trims, then writes
  \<^verbatim>\<open>sessions/{Key}.json\<close>. \<open>write_ok\<close> is the outcome of \<^verbatim>\<open>os.WriteFile\<close>
  (\<^verbatim>\<open>json.MarshalIndent\<close> cannot fail on this struct); the trimmed prefix is dropped.
\<close>

definition Save_session :: "bool \<Rightarrow> Session \<Rightarrow> (string \<rightharpoonup> Session) \<Rightarrow>
    bool \<times> Session \<times> (string \<rightharpoonup> Session)" where
  "Save_session write_ok s fs =
     (let s' = snd (Trim s)
      in if write_ok then (True, s', fs(Key s' @ ''.json'' \<mapsto> s'))
         else (False, s', fs))"

definition Save :: "bool \<Rightarrow> string \<Rightarrow> SessionManager \<Rightarrow> bool \<times> SessionManager" where
  "Save write_ok key sm =
     (case map_of (sessions sm) key of
        None \<Rightarrow> (False, sm)
      | Some s \<Rightarrow>
          (case Save_session write_ok s (files sm) of
             (ok, s', fs') \<Rightarrow> (ok, (put_session key s' sm)\<lparr>files := fs'\<rparr>)))"

text \<open>
  \<^verbatim>\<open>func (sm *SessionManager) TrimAll() []*Message\<close>: trims every session of the map
  and concatenates the discarded prefixes in iteration order.
\<close>

fun TrimAll_list :: "(string \<times> Session) list \<Rightarrow> Message list \<times> (string \<times> Session) list" where
  "TrimAll_list [] = ([], [])"
| "TrimAll_list ((k, s) # rest) =
     (let (trimmed, s') = Trim s;
          (trimmedMsg, rest') = TrimAll_list rest
      in (trimmed @ trimmedMsg, (k, s') # rest'))"

definition TrimAll :: "SessionManager \<Rightarrow> Message list \<times> SessionManager" where
  "TrimAll sm = (let (msgs, ss) = TrimAll_list (sessions sm) in (msgs, sm\<lparr>sessions := ss\<rparr>))"

section \<open>Hub and transport proxy (packages chat and channels)\<close>

text \<open>
  \<^verbatim>\<open>chat.Inbound\<close> and \<open>chat.Outbound\<close>; the field names carry a prefix because the
  two structs share them. \<^verbatim>\<open>time.Time\<close> is kept as its text, and the
  \<^verbatim>\<open>map[string]interface{}\<close> metadata as an association list of texts.
\<close>

record Inbound =
  in_Channel :: string
  in_SenderID :: string
  in_ChatID :: string
  in_Content :: string
  in_Timestamp :: string
  in_Media :: "string list"
  in_Metadata :: "(string \<times> string) list"

record Outbound =
  out_Channel :: string
  out_ChatID :: string
  out_Content :: string
  out_ReplyTo :: string
  out_Media :: "string list"
  out_Metadata :: "(string \<times> string) list"

text \<open>
  \<^verbatim>\<open>chat.Hub\<close>: four buffered channels created by \<^verbatim>\<open>NewHub(buffer)\<close>. A channel is
  the list of the messages waiting in it, oldest first, and holds at most \<open>buffer\<close>.
\<close>

record Hub =
  In :: "Inbound list"
  Out :: "Outbound list"
  TelegramOut :: "Outbound list"
  NtfyOut :: "Outbound list"
  buffer :: nat

definition NewHub :: "nat \<Rightarrow> Hub" where
  "NewHub n = \<lparr>In = [], Out = [], TelegramOut = [], NtfyOut = [], buffer = n\<rparr>"

text \<open>
  The non-blocking send \<^verbatim>\<open>select { case ch <- v: ... default: ... }\<close>: the send is
  taken when the buffer has room, the \<^verbatim>\<open>default\<close> branch otherwise. (A receiver
  blocked on the channel at that instant is not modelled: receivers are separate steps.)
\<close>

definition try_send :: "nat \<Rightarrow> 'a list \<Rightarrow> 'a \<Rightarrow> bool \<times> 'a list" where
  "try_send cap q v = (if length q < cap then (True, q @ [v]) else (False, q))"

text \<open>
  One turn of the goroutine of \<^verbatim>\<open>StartProxy\<close> on the branch
  \<^verbatim>\<open>case msg := <-hub.Out\<close>: the oldest message of \<open>Out\<close> is received and
  dispatched on \<^verbatim>\<open>msg.Channel\<close>. The result is the hub afterwards and the lines
  logged; \<open>None\<close> when \<open>Out\<close> is empty and the receive blocks.
\<close>

definition proxy_dispatch :: "Outbound \<Rightarrow> Hub \<Rightarrow> Hub \<times> string list" where
  "proxy_dispatch msg hub =
     (if out_Channel msg = ''telegram'' then
        (case try_send (buffer hub) (TelegramOut hub) msg of
           (True, q) \<Rightarrow>
             (hub\<lparr>TelegramOut := q\<rparr>,
              [''proxy: forwarded message to telegram channel for chatID '' @ out_ChatID msg])
         | (False, q) \<Rightarrow>
             (hub, [''telegram channel full, dropping message for '' @ out_ChatID msg]))
      else if out_Channel msg = ''ntfy'' then
        (case try_send (buffer hub) (NtfyOut hub) msg of
           (True, q) \<Rightarrow>
             (hub\<lparr>NtfyOut := q\<rparr>,
              [''proxy: forwarded message to ntfy channel for chatID '' @ out_ChatID msg])
         | (False, q) \<Rightarrow>
             (hub, [''ntfy channel full, dropping message for '' @ out_ChatID msg]))
      else (hub, [''unknown channel type: '' @ out_Channel msg]))"

definition proxy_step :: "Hub \<Rightarrow> (Hub \<times> string list) option" where
  "proxy_step hub =
     (case Out hub of
        [] \<Rightarrow> None
      | msg # rest \<Rightarrow> Some (proxy_dispatch msg (hub\<lparr>Out := rest\<rparr>)))"

section \<open>Vectors and the SQL scalar functions (package memory)\<close>

text \<open>
  Floating point. A finite \<^verbatim>\<open>float32\<close> or \<^verbatim>\<open>float64\<close> is the real number it
  denotes, and an arithmetic operation is the exact operation followed by rounding to
  the format, which is how IEEE 754 defines it. The two rounding functions and the
  two conversions between a \<^verbatim>\<open>float32\<close> and its bit pattern are parameters, so
  every theorem holds for each choice of them. Infinities, NaN and the sign of zero
  are outside this model. Converting a \<^verbatim>\<open>float32\<close> to \<^verbatim>\<open>float64\<close> is exact.
\<close>

record float_model =
  rnd32 :: "real \<Rightarrow> real"
  rnd64 :: "real \<Rightarrow> real"
  Float32frombits :: "32 word \<Rightarrow> real"
  Float32bits :: "real \<Rightarrow> 32 word"

text \<open>\<^verbatim>\<open>driver.Value\<close>: the values SQLite passes to a registered function.\<close>

datatype driver_value =
  VNull | VInt int | VFloat real | VText string | VBlob "8 word list"

text \<open>The type assertion \<^verbatim>\<open>v.([]byte)\<close>.\<close>

fun as_bytes :: "driver_value \<Rightarrow> 8 word list option" where
  "as_bytes (VBlob b) = Some b"
| "as_bytes _ = None"

text \<open>
  \<^verbatim>\<open>binary.LittleEndian.Uint32(b)\<close> and \<^verbatim>\<open>binary.LittleEndian.PutUint32\<close>. The
  first panics on fewer than four bytes; its only caller below reads four bytes that
  exist.
\<close>

definition LittleEndian_Uint32 :: "8 word list \<Rightarrow> 32 word" where
  "LittleEndian_Uint32 b =
     ucast (b ! 0) OR push_bit 8 (ucast (b ! 1)) OR push_bit 16 (ucast (b ! 2))
       OR push_bit 24 (ucast (b ! 3))"

definition LittleEndian_PutUint32 :: "32 word \<Rightarrow> 8 word list" where
  "LittleEndian_PutUint32 v =
     [ucast v, ucast (drop_bit 8 v), ucast (drop_bit 16 v), ucast (drop_bit 24 v)]"

text \<open>\<^verbatim>\<open>func bytesToFloats(b []byte) []float32\<close>; \<open>None\<close> is the panic.\<close>

definition bytesToFloats :: "float_model \<Rightarrow> 8 word list \<Rightarrow> real list option" where
  "bytesToFloats fm b =
     (if length b mod 4 \<noteq> 0 then None
      else Some (map (\<lambda>i. Float32frombits fm (LittleEndian_Uint32 (drop (i * 4) b)))
                   [0..<length b div 4]))"

text \<open>\<^verbatim>\<open>func floatsToBytes(vec []float32) []byte\<close>.\<close>

definition floatsToBytes :: "float_model \<Rightarrow> real list \<Rightarrow> 8 word list" where
  "floatsToBytes fm vec = concat (map (\<lambda>f. LittleEndian_PutUint32 (Float32bits fm f)) vec)"

text \<open>
  The loop \<^verbatim>\<open>for i := range qVec { dot += float64(qVec[i] * rowVec[i]) }\<close>: a
  \<^verbatim>\<open>float32\<close> product, converted, and added in \<^verbatim>\<open>float64\<close>. Both callers have
  checked that the two vectors have the same length.
\<close>

definition dot_loop :: "float_model \<Rightarrow> real list \<Rightarrow> real list \<Rightarrow> real" where
  "dot_loop fm qVec rowVec =
     foldl (\<lambda>dot i. rnd64 fm (dot + rnd32 fm (qVec ! i * rowVec ! i))) 0 [0..<length qVec]"

text \<open>
  The padding block of both scalar functions:
  \<^verbatim>\<open>append(blob, make([]byte, paddedLength-len(blob))...)\<close> on each argument when
  the lengths differ.
\<close>

definition pad_blobs :: "8 word list \<Rightarrow> 8 word list \<Rightarrow> 8 word list \<times> 8 word list" where
  "pad_blobs qBlob rowBlob =
     (if length qBlob \<noteq> length rowBlob then
        (let paddedLength = max (length qBlob) (length rowBlob)
         in (qBlob @ replicate (paddedLength - length qBlob) 0,
             rowBlob @ replicate (paddedLength - length rowBlob) 0))
      else (qBlob, rowBlob))"

text \<open>
  \<^verbatim>\<open>func cosineSimilarityScalar(_, args []driver.Value) (driver.Value, error)\<close>:
  \<open>Inl\<close> carries the error text, \<open>Inr\<close> the \<^verbatim>\<open>float64\<close> returned.
\<close>

definition cosineSimilarityScalar :: "float_model \<Rightarrow> driver_value list \<Rightarrow> string + real" where
  "cosineSimilarityScalar fm args =
     (if length args \<noteq> 2 then Inl ''cosine_similarity expects exactly 2 BLOB arguments''
      else
        (case as_bytes (args ! 0) of
           None \<Rightarrow> Inl ''both arguments must be BLOB''
         | Some qBlob0 \<Rightarrow>
        (case as_bytes (args ! 1) of
           None \<Rightarrow> Inl ''both arguments must be BLOB''
         | Some rowBlob0 \<Rightarrow>
             if length qBlob0 mod 4 \<noteq> 0 \<or> length rowBlob0 mod 4 \<noteq> 0
             then Inl ''blobs must contain whole float32 values''
             else
               (case pad_blobs qBlob0 rowBlob0 of
                  (qBlob, rowBlob) \<Rightarrow>
                    if length qBlob = 0 \<or> length rowBlob = 0 then Inr 0
                    else if length qBlob \<noteq> length rowBlob
                    then Inl ''vector dimension mismatch''
                    else
                      (case bytesToFloats fm qBlob of
                         None \<Rightarrow> Inl ''panic: invalid blob length''
                       | Some qVec \<Rightarrow>
                      (case bytesToFloats fm rowBlob of
                         None \<Rightarrow> Inl ''panic: invalid blob length''
                       | Some rowVec \<Rightarrow> Inr (dot_loop fm qVec rowVec)))))))"

text \<open>
  \<^verbatim>\<open>func cosineDistanceScalar(_, args []driver.Value) (driver.Value, error)\<close>. The
  check for an empty argument comes before the check of the lengths here, and once
  more after the padding.
\<close>

definition cosineDistanceScalar :: "float_model \<Rightarrow> driver_value list \<Rightarrow> string + real" where
  "cosineDistanceScalar fm args =
     (if length args \<noteq> 2 then Inl ''cosine_distance expects exactly 2 BLOB arguments''
      else
        (case as_bytes (args ! 0) of
           None \<Rightarrow> Inl ''both arguments must be BLOB''
         | Some qBlob0 \<Rightarrow>
        (case as_bytes (args ! 1) of
           None \<Rightarrow> Inl ''both arguments must be BLOB''
         | Some rowBlob0 \<Rightarrow>
             if length qBlob0 = 0 \<or> length rowBlob0 = 0 then Inr 1
             else if length qBlob0 mod 4 \<noteq> 0 \<or> length rowBlob0 mod 4 \<noteq> 0
             then Inl ''BLOB length must be multiple of 4 (float32)''
             else
               (case pad_blobs qBlob0 rowBlob0 of
                  (qBlob, rowBlob) \<Rightarrow>
                    if length qBlob = 0 \<or> length rowBlob = 0 then Inr 1
                    else if length qBlob \<noteq> length rowBlob
                    then Inl ''vector dimension mismatch''
                    else
                      (case bytesToFloats fm qBlob of
                         None \<Rightarrow> Inl ''panic: invalid blob length''
                       | Some qVec \<Rightarrow>
                      (case bytesToFloats fm rowBlob of
                         None \<Rightarrow> Inl ''panic: invalid blob length''
                       | Some rowVec \<Rightarrow>
                           (let cosSim = dot_loop fm qVec rowVec
                            in Inr (rnd64 fm (1 - cosSim)))))))))"

text \<open>
  The words of the specification, for comparison with the code: a BLOB read as an
  array of little-endian \<^verbatim>\<open>float32\<close>, four bytes at a time; the shorter argument
  padded with zero bytes to the longer length; and the dot product, accumulated from
  the first component on.
\<close>

definition le_word32 :: "8 word \<Rightarrow> 8 word \<Rightarrow> 8 word \<Rightarrow> 8 word \<Rightarrow> 32 word" where
  "le_word32 b0 b1 b2 b3 =
     word_of_nat (unat b0 + 256 * unat b1 + 65536 * unat b2 + 16777216 * unat b3)"

fun le_float32_array :: "float_model \<Rightarrow> 8 word list \<Rightarrow> real list" where
  "le_float32_array fm (b0 # b1 # b2 # b3 # rest) =
     Float32frombits fm (le_word32 b0 b1 b2 b3) # le_float32_array fm rest"
| "le_float32_array fm _ = []"

definition zero_pad :: "nat \<Rightarrow> 8 word list \<Rightarrow> 8 word list" where
  "zero_pad n b = b @ replicate (n - length b) 0"

fun dot_product :: "float_model \<Rightarrow> real \<Rightarrow> real list \<Rightarrow> real list \<Rightarrow> real" where
  "dot_product fm acc (x # xs) (y # ys) = dot_product fm (rnd64 fm (acc + rnd32 fm (x * y))) xs ys"
| "dot_product fm acc _ _ = acc"

text \<open>
  Cosine similarity in exact arithmetic: the sum of the products of the components
  over the product of the Euclidean norms. \<open>exact\<close> says that a model rounds nothing.
\<close>

definition l2_norm :: "real list \<Rightarrow> real" where
  "l2_norm xs = sqrt (\<Sum>x\<leftarrow>xs. x * x)"

definition cosine :: "real list \<Rightarrow> real list \<Rightarrow> real" where
  "cosine xs ys = (\<Sum>(x, y)\<leftarrow>zip xs ys. x * y) / (l2_norm xs * l2_norm ys)"

definition exact :: "float_model \<Rightarrow> bool" where
  "exact fm \<longleftrightarrow> (\<forall>x. rnd32 fm x = x) \<and> (\<forall>x. rnd64 fm x = x)"

section \<open>The embedder (embed\_onnx.go and onnx\_engine.go)\<close>

text \<open>
  Text is modelled as ASCII: \<^verbatim>\<open>unicode.IsSpace\<close> on the ASCII range is tab, line
  feed, vertical tab, form feed, carriage return and space. \<^verbatim>\<open>strings.Fields\<close>
  splits around runs of white space, \<^verbatim>\<open>strings.Join\<close> puts a separator between
  the elements, \<^verbatim>\<open>strings.TrimSpace\<close> removes leading and trailing white space.
\<close>

definition isSpace :: "char \<Rightarrow> bool" where
  "isSpace c \<longleftrightarrow>
     c = CHR 0x09 \<or> c = CHR 0x0A \<or> c = CHR 0x0B \<or> c = CHR 0x0C \<or> c = CHR 0x0D \<or> c = CHR '' ''"




definition TrimSpace :: "string \<Rightarrow> string" where
  "TrimSpace s = rev (dropWhile isSpace (rev (dropWhile isSpace s)))"















section \<open>Persistent memory (package memory)\<close>

text \<open>
  \<^verbatim>\<open>memory.MemoryItem\<close>, a row of the table \<^verbatim>\<open>history\<close>, and the part of
  \<^verbatim>\<open>config.MemoryConfig\<close> that \<^verbatim>\<open>NewPersistMemory\<close> reads (the three paths
  only reach the file system).
\<close>

record MemoryItem =
  Kind :: string
  mi_Role :: string
  Text :: string
  Similarity :: real
  mi_Timestamp :: string

record history_row =
  row_id :: nat
  channel_id :: string
  row_role :: string
  row_content :: string
  row_timestamp :: string
  embedding :: "8 word list"

record MemoryConfig =
  Enabled :: bool
  EmbedType :: string
  Threshold :: real
  TopK :: int

text \<open>
  \<^verbatim>\<open>MemoryPersist\<close>: the embedder is the function \<^verbatim>\<open>Embed\<close> of the
  \<^verbatim>\<open>EmbedProvider\<close>, the database is the list of the rows of \<^verbatim>\<open>history\<close> in
  insertion order.
\<close>

record MemoryPersist =
  embedder :: "string \<Rightarrow> string + real list"
  db :: "history_row list"
  threshold :: real
  topk :: int

text \<open>
  \<^verbatim>\<open>func NewPersistMemory(memConf *config.MemoryConfig) *MemoryPersist\<close>; \<open>None\<close> is
  \<^verbatim>\<open>nil\<close>. \<open>onnxemb\<close> is the outcome of \<^verbatim>\<open>NewONNXEmbedder\<close> and \<open>opened\<close> that
  of \<^verbatim>\<open>initDB\<close> followed by \<^verbatim>\<open>initSchema\<close> (the rows already in the file). The
  constant \<^verbatim>\<open>0.87\<close> is assigned to a \<^verbatim>\<open>float32\<close>.
\<close>

definition NewPersistMemory ::
  "float_model \<Rightarrow> MemoryConfig \<Rightarrow> (string + (string \<Rightarrow> string + real list)) \<Rightarrow>
     (string + history_row list) \<Rightarrow> MemoryPersist option" where
  "NewPersistMemory fm memConf onnxemb opened =
     (if EmbedType memConf \<noteq> ''onnx'' then None
      else
        (case onnxemb of
           Inl err \<Rightarrow> None
         | Inr emb \<Rightarrow>
             (case opened of
                Inl err \<Rightarrow> None
              | Inr rows \<Rightarrow>
                  Some \<lparr>embedder = emb, db = rows,
                        threshold = (if Threshold memConf \<le> 0 then rnd32 fm (87 / 100)
                                     else Threshold memConf),
                        topk = (if TopK memConf \<le> 0 then 10 else TopK memConf)\<rparr>)))"

text \<open>
  \<^verbatim>\<open>func (m *MemoryPersist) StoreHistory(channelID, role, content, timestamp)\<close>:
  one row is inserted when the content embeds; \<^verbatim>\<open>AUTOINCREMENT\<close> numbers it. Faults
  of the database file are not modelled.
\<close>

definition next_id :: "history_row list \<Rightarrow> nat" where
  "next_id rows = Suc (foldr max (map row_id rows) 0)"

definition StoreHistory ::
  "float_model \<Rightarrow> string \<Rightarrow> string \<Rightarrow> string \<Rightarrow> string \<Rightarrow> MemoryPersist \<Rightarrow>
     string option \<times> MemoryPersist" where
  "StoreHistory fm channelID rl cnt ts m =
     (case embedder m cnt of
        Inl err \<Rightarrow> (Some (''embedding content: '' @ err), m)
      | Inr emb \<Rightarrow>
          (None,
           m\<lparr>db := db m @
                 [\<lparr>row_id = next_id (db m), channel_id = channelID, row_role = rl, row_content = cnt,
                   row_timestamp = ts, embedding = floatsToBytes fm emb\<rparr>]\<rparr>))"

text \<open>
  The statement that \<^verbatim>\<open>QueryHistory\<close> builds, in its three pieces, and what SQLite
  does with it. The table is scanned (through \<^verbatim>\<open>idx_channel_id\<close> when the channel
  clause is there), \<^verbatim>\<open>cosine_similarity(embedding, ?)\<close> is evaluated on each row
  scanned and an error of the function fails the statement, the rows that pass
  \<^verbatim>\<open>similarity >= ?\<close> are ordered by decreasing similarity, and \<^verbatim>\<open>LIMIT\<close> keeps
  the first rows (all of them if the limit is negative). Any other statement is
  refused. A result row is role, content, timestamp and similarity.
\<close>

definition sql_select :: string where
  "sql_select =
     ''\<newline>SELECT role, content, timestamp, cosine_similarity(embedding, ?) AS similarity\<newline>FROM history WHERE similarity >= ?\<newline>''"

definition sql_channel :: string where
  "sql_channel = ''AND channel_id = ?\<newline>''"

definition sql_order_limit :: string where
  "sql_order_limit = ''ORDER BY similarity DESC\<newline>LIMIT ?''"

definition row_similarity :: "float_model \<Rightarrow> 8 word list \<Rightarrow> history_row \<Rightarrow> string + real" where
  "row_similarity fm q r = cosineSimilarityScalar fm [VBlob (embedding r), VBlob q]"

fun with_similarity ::
  "float_model \<Rightarrow> 8 word list \<Rightarrow> history_row list \<Rightarrow> string + (history_row \<times> real) list" where
  "with_similarity fm q [] = Inr []"
| "with_similarity fm q (r # rs) =
     (case row_similarity fm q r of
        Inl err \<Rightarrow> Inl err
      | Inr s \<Rightarrow>
          (case with_similarity fm q rs of
             Inl err \<Rightarrow> Inl err
           | Inr scored \<Rightarrow> Inr ((r, s) # scored)))"

definition sql_limit :: "int \<Rightarrow> 'a list \<Rightarrow> 'a list" where
  "sql_limit k xs = (if k < 0 then xs else take (nat k) xs)"

definition select_history ::
  "float_model \<Rightarrow> history_row list \<Rightarrow> 8 word list \<Rightarrow> real \<Rightarrow> string option \<Rightarrow> int \<Rightarrow>
     string + (history_row \<times> real) list" where
  "select_history fm rows q thr chan k =
     (let scanned = (case chan of None \<Rightarrow> rows | Some c \<Rightarrow> filter (\<lambda>r. channel_id r = c) rows)
      in case with_similarity fm q scanned of
           Inl err \<Rightarrow> Inl err
         | Inr scored \<Rightarrow>
             Inr (sql_limit k (sort_key (\<lambda>(r, s). - s) (filter (\<lambda>(r, s). s \<ge> thr) scored))))"

fun args_plain :: "driver_value list \<Rightarrow> (8 word list \<times> real \<times> int) option" where
  "args_plain [VBlob q, VFloat thr, VInt k] = Some (q, thr, k)"
| "args_plain _ = None"

fun args_channel :: "driver_value list \<Rightarrow> (8 word list \<times> real \<times> string \<times> int) option" where
  "args_channel [VBlob q, VFloat thr, VText c, VInt k] = Some (q, thr, c, k)"
| "args_channel _ = None"

definition db_Query ::
  "float_model \<Rightarrow> history_row list \<Rightarrow> string \<Rightarrow> driver_value list \<Rightarrow>
     string + (history_row \<times> real) list" where
  "db_Query fm rows sqlStr args =
     (if sqlStr = sql_select @ sql_order_limit then
        (case args_plain args of
           None \<Rightarrow> Inl ''wrong arguments''
         | Some (q, thr, k) \<Rightarrow> select_history fm rows q thr None k)
      else if sqlStr = sql_select @ sql_channel @ sql_order_limit then
        (case args_channel args of
           None \<Rightarrow> Inl ''wrong arguments''
         | Some (q, thr, c, k) \<Rightarrow> select_history fm rows q thr (Some c) k)
      else Inl ''statement not supported'')"

text \<open>
  \<^verbatim>\<open>func (m *MemoryPersist) QueryHistory(channelID, query string, topk int)\<close>. The
  \<^verbatim>\<open>float32\<close> threshold reaches the driver as the same number in \<^verbatim>\<open>float64\<close>.
\<close>

definition scan_item :: "history_row \<times> real \<Rightarrow> MemoryItem" where
  "scan_item rs =
     \<lparr>Kind = '''', mi_Role = row_role (fst rs), Text = row_content (fst rs), Similarity = snd rs,
      mi_Timestamp = row_timestamp (fst rs)\<rparr>"

definition QueryHistory ::
  "float_model \<Rightarrow> MemoryPersist \<Rightarrow> string \<Rightarrow> string \<Rightarrow> int \<Rightarrow> string + MemoryItem list" where
  "QueryHistory fm m channelID query topk0 =
     (case embedder m query of
        Inl err \<Rightarrow> Inl (''embedding query: '' @ err)
      | Inr emb \<Rightarrow>
          (let topk1 = (if topk0 \<le> 0 then topk m else topk0);
               sqlStr0 = sql_select;
               args0 = [VBlob (floatsToBytes fm emb), VFloat (threshold m)];
               sqlStr1 = (if channelID \<noteq> '''' then sqlStr0 @ sql_channel else sqlStr0);
               args1 = (if channelID \<noteq> '''' then args0 @ [VText channelID] else args0);
               sqlStr2 = sqlStr1 @ sql_order_limit;
               args2 = args1 @ [VInt topk1]
           in case db_Query fm (db m) sqlStr2 args2 of
                Inl err \<Rightarrow> Inl (''querying memory: '' @ err)
              | Inr rows \<Rightarrow> Inr (map scan_item rows)))"

section \<open>File memory (memory/store.go)\<close>

text \<open>
  \<^verbatim>\<open>MemoryStore\<close> over the two files the agent loop touches, \<^verbatim>\<open>MEMORY.md\<close> and the
  note of the current day; \<open>None\<close> is a file that does not exist, which is the only
  failure of a read that is modelled.
\<close>

record MemoryStore =
  longTermFile :: "string option"
  todayFile :: "string option"

definition ReadLongTerm :: "MemoryStore \<Rightarrow> string" where
  "ReadLongTerm s = (case longTermFile s of None \<Rightarrow> '''' | Some b \<Rightarrow> b)"

definition ReadToday :: "MemoryStore \<Rightarrow> string" where
  "ReadToday s = (case todayFile s of None \<Rightarrow> '''' | Some b \<Rightarrow> b)"

text \<open>
  \<^verbatim>\<open>func (s *MemoryStore) AppendToday(text string) error\<close>: \<open>ok\<close> is whether the
  directory and the file can be opened and written, \<open>now\<close> the clock in RFC 3339.
  The result is the error, if any, and the store afterwards.
\<close>

definition AppendToday :: "bool \<Rightarrow> string \<Rightarrow> string \<Rightarrow> MemoryStore \<Rightarrow> string option \<times> MemoryStore" where
  "AppendToday ok now text s =
     (if ok then (None, s\<lparr>todayFile := Some (ReadToday s @ ''['' @ now @ ''] '' @ text @ ''\<newline>'')\<rparr>)
      else (Some ''open failed'', s))"

definition GetMemoryContext :: "MemoryStore \<Rightarrow> string" where
  "GetMemoryContext s =
     (let lt = ReadLongTerm s; td = ReadToday s
      in if lt = '''' \<and> td = '''' then ''''
         else if lt = '''' then td
         else if td = '''' then lt
         else lt @ ''\<newline>\<newline>---\<newline>\<newline>'' @ td)"

section \<open>The remember pattern (agent/loop.go)\<close>

text \<open>
  \<^verbatim>\<open>rememberRE = regexp.MustCompile(`(?i)^remember(?:\s+to)?\s+(.+)$`)\<close> and
  \<^verbatim>\<open>FindStringSubmatch\<close>, which returns the whole match and the group, two strings,
  or \<^verbatim>\<open>nil\<close>; the model returns the group. Go's matcher prefers what a backtracking
  matcher finds first: the optional group taken before skipped, and each
  \<^verbatim>\<open>\s+\<close> as long as possible. \<^verbatim>\<open>\s\<close> is tab, line feed, form feed, carriage
  return and space; \<^verbatim>\<open>.\<close> is any character but line feed; \<^verbatim>\<open>$\<close> is the end of
  the text.
\<close>

definition isSpaceRE :: "char \<Rightarrow> bool" where
  "isSpaceRE c \<longleftrightarrow>
     c = CHR 0x09 \<or> c = CHR 0x0A \<or> c = CHR 0x0C \<or> c = CHR 0x0D \<or> c = CHR '' ''"

text \<open>A literal under \<^verbatim>\<open>(?i)\<close>: each letter is given in lower and in upper case.\<close>

fun literal_ci :: "(char \<times> char) list \<Rightarrow> string \<Rightarrow> string option" where
  "literal_ci [] s = Some s"
| "literal_ci ((lo, up) # ps) [] = None"
| "literal_ci ((lo, up) # ps) (c # cs) = (if c = lo \<or> c = up then literal_ci ps cs else None)"

text \<open>\<^verbatim>\<open>(.+)$\<close>: the rest of the text, not empty and without a line feed.\<close>

definition rest_of_line :: "string \<Rightarrow> string option" where
  "rest_of_line s = (if s \<noteq> [] \<and> CHR 0x0A \<notin> set s then Some s else None)"

text \<open>\<^verbatim>\<open>\s+(.+)$\<close>: after one white space, more white space is tried first.\<close>

fun spaces_then_rest :: "string \<Rightarrow> string option" where
  "spaces_then_rest [] = None"
| "spaces_then_rest (c # cs) =
     (if isSpaceRE c
      then (case spaces_then_rest cs of Some note \<Rightarrow> Some note | None \<Rightarrow> rest_of_line cs)
      else None)"

text \<open>\<^verbatim>\<open>\s+to\<close> followed by \<^verbatim>\<open>\s+(.+)$\<close>.\<close>

definition to_then_rest :: "string \<Rightarrow> string option" where
  "to_then_rest s =
     (case literal_ci [(CHR ''t'', CHR ''T''), (CHR ''o'', CHR ''O'')] s of
        None \<Rightarrow> None
      | Some s' \<Rightarrow> spaces_then_rest s')"

fun spaces_then_to :: "string \<Rightarrow> string option" where
  "spaces_then_to [] = None"
| "spaces_then_to (c # cs) =
     (if isSpaceRE c
      then (case spaces_then_to cs of Some note \<Rightarrow> Some note | None \<Rightarrow> to_then_rest cs)
      else None)"

definition rememberRE :: "string \<Rightarrow> string option" where
  "rememberRE s =
     (case literal_ci (zip ''remember'' ''REMEMBER'') s of
        None \<Rightarrow> None
      | Some s' \<Rightarrow>
          (case spaces_then_to s' of
             Some note \<Rightarrow> Some note
           | None \<Rightarrow> spaces_then_rest s'))"

section \<open>Provider messages and the context builder (agent/context.go)\<close>

record ToolCall =
  tc_ID :: string
  tc_Name :: string
  tc_Arguments :: "(string \<times> string) list"

text \<open>\<^verbatim>\<open>providers.Message\<close>, \<^verbatim>\<open>providers.ToolDefinition\<close> and the provider's response.\<close>

record ProviderMessage =
  pm_Role :: string
  pm_Content :: string
  pm_ToolCalls :: "ToolCall list"
  pm_ToolCallID :: string

record ToolDefinition =
  td_Name :: string
  td_Description :: string
  td_Parameters :: "(string \<times> string) list"

record Response =
  resp_Content :: string
  HasToolCalls :: bool
  ToolCalls :: "ToolCall list"

definition plain_message :: "string \<Rightarrow> string \<Rightarrow> ProviderMessage" where
  "plain_message r c = \<lparr>pm_Role = r, pm_Content = c, pm_ToolCalls = [], pm_ToolCallID = ''''\<rparr>"

text \<open>
  \<^verbatim>\<open>ContextBuilder\<close>. What \<^verbatim>\<open>BuildMessages\<close> reads from outside is kept in the record:
  the clock already formatted, the bootstrap files that exist with their contents
  (looked up by name), and the skills \<^verbatim>\<open>skillsLoader.LoadAll\<close> returns as pairs of
  name and description.
\<close>

record ContextBuilder =
  workspace :: string
  ranker :: "(string \<Rightarrow> MemoryItem list \<Rightarrow> int \<Rightarrow> MemoryItem list) option"
  cb_topK :: int
  time_now :: string
  bootstrap :: "string \<rightharpoonup> string"
  loadedSkills :: "(string \<times> string) list"

definition bootstrap_section :: "ContextBuilder \<Rightarrow> string \<Rightarrow> string" where
  "bootstrap_section cb name =
     (case bootstrap cb name of
        None \<Rightarrow> ''''
      | Some data \<Rightarrow>
          (let content = TrimSpace data
           in if content \<noteq> '''' then ''## '' @ name @ ''\<newline>\<newline>'' @ content else ''''))"

definition skills_section :: "(string \<times> string) list \<Rightarrow> string" where
  "skills_section sk =
     (if length sk > 0 then
        ''# Skills\<newline>\<newline>''
        @ ''The following skills extend your capabilities. To use a skill, read it using read_skill tool.\<newline>\<newline>''
        @ ''<skills>\<newline>''
        @ concat (map (\<lambda>(name, description).
              '' <skill>\<newline>'' @ ''  <name>'' @ name @ ''</name>\<newline>''
              @ ''  <description>'' @ description @ ''</description>\<newline>'' @ '' </skill>\<newline>'') sk)
        @ ''</skills>\<newline>\<newline>''
      else '''')"

definition memories_section :: "MemoryItem list \<Rightarrow> string" where
  "memories_section selected =
     (if length selected > 0 then
        ''Relevant memories:\<newline>''
        @ concat (map (\<lambda>m. ''- '' @ Text m @ '' ('' @ Kind m @ '')\<newline>'') selected)
      else '''')"

definition system_prompt ::
  "ContextBuilder \<Rightarrow> string \<Rightarrow> string \<Rightarrow> string \<Rightarrow> string \<Rightarrow> MemoryItem list \<Rightarrow> string" where
  "system_prompt cb currentMessage channel chatID memoryContext memories =
     ''You are Picobot, a helpful assistant.\<newline>\<newline>''
     @ ''## Current Time\<newline>'' @ time_now cb @ ''\<newline>\<newline>''
     @ ''## Workspace\<newline>Your workspace is at: '' @ workspace cb @ ''\<newline>''
     @ ''- Memory files: '' @ workspace cb @ ''/memory/MEMORY.md\<newline>''
     @ ''- Daily notes: '' @ workspace cb @ ''/memory/YYYY-MM-DD.md\<newline>''
     @ ''- Custom skills: '' @ workspace cb @ ''/skills/{skill-name}/SKILL.md\<newline>\<newline>''
     @ ''IMPORTANT: For normal conversation, just respond with text - do not call the message tool!\<newline>''
     @ ''Only use the 'message' tool when you need to send a message to a specific chat channel.\<newline>\<newline>''
     @ ''## Current Session\<newline>Channel: '' @ channel @ ''\<newline>Chat ID: '' @ chatID @ ''\<newline>''
     @ ''\<newline>\<newline>''
     @ concat (map (bootstrap_section cb) [''SOUL.md'', ''AGENTS.md'', ''USER.md'', ''TOOLS.md''])
     @ ''Always be helpful, accurate, and concise. If you decide something should be remembered, call the tool 'write_memory' with JSON arguments: {\"target\": \"today\"|\"long\", \"content\": \"...\", \"append\": true|false}. Use a tool call rather than plain chat text when writing memory.\<newline>\<newline>''
     @ skills_section (loadedSkills cb)
     @ (if memoryContext \<noteq> '''' then ''Memory:\<newline>'' @ memoryContext else '''')
     @ memories_section
         (case ranker cb of
            Some rank \<Rightarrow> (if length memories > 0 then rank currentMessage memories (cb_topK cb) else memories)
          | None \<Rightarrow> memories)"

text \<open>\<^verbatim>\<open>func (cb *ContextBuilder) BuildMessages(history, currentMessage, channel, chatID,
  memoryContext, memories) []providers.Message\<close>.\<close>

definition BuildMessages ::
  "ContextBuilder \<Rightarrow> Message list \<Rightarrow> string \<Rightarrow> string \<Rightarrow> string \<Rightarrow> string \<Rightarrow> MemoryItem list
     \<Rightarrow> ProviderMessage list" where
  "BuildMessages cb history currentMessage channel chatID memoryContext memories =
     [plain_message ''system''
        (system_prompt cb currentMessage channel chatID memoryContext memories)]
     @ map (\<lambda>h. plain_message (Role h) (Content h)) history
     @ [plain_message ''user'' currentMessage]"

section \<open>The agent loop (agent/loop.go)\<close>

text \<open>
  The collaborators of the loop are outside the repository's core: the LLM provider
  and the tool registry. They are functions on a state \<open>'w\<close> of the outside world
  that they may read and change. \<open>provider_Chat\<close> is \<^verbatim>\<open>provider.Chat\<close> with the
  model, temperature and token limit of the loop; it returns an error text or a
  response. \<open>tools_Execute\<close> is \<^verbatim>\<open>tools.Execute(ctx, name, args)\<close>.
  \<open>tools_Definitions\<close> is \<^verbatim>\<open>tools.Definitions()\<close>, fixed once the loop is built.
  \<open>tools_SetContext\<close> is \<^verbatim>\<open>SetContext\<close> on the \<^verbatim>\<open>message\<close> and \<^verbatim>\<open>cron\<close>
  tools that are registered.
\<close>

record 'w collaborators =
  provider_Chat :: "'w \<Rightarrow> ProviderMessage list \<Rightarrow> ToolDefinition list \<Rightarrow> (string + Response) \<times> 'w"
  tools_Execute :: "'w \<Rightarrow> string \<Rightarrow> (string \<times> string) list \<Rightarrow> (string + string) \<times> 'w"
  tools_Definitions :: "ToolDefinition list"
  tools_SetContext :: "string \<Rightarrow> string \<Rightarrow> 'w \<Rightarrow> 'w"

text \<open>
  The inner loop \<^verbatim>\<open>for _, tc := range resp.ToolCalls\<close>, the same in \<^verbatim>\<open>Run\<close> and
  in \<^verbatim>\<open>ProcessDirect\<close>: each call is executed, an error becomes the text
  \<^verbatim>\<open>"(tool error) " + err.Error()\<close>, and a \<^verbatim>\<open>tool\<close> message is appended.
\<close>

fun execute_tool_calls ::
  "'w collaborators \<Rightarrow> ToolCall list \<Rightarrow> ProviderMessage list \<Rightarrow> string \<Rightarrow> 'w
     \<Rightarrow> ProviderMessage list \<times> string \<times> 'w" where
  "execute_tool_calls c [] messages lastToolResult w = (messages, lastToolResult, w)"
| "execute_tool_calls c (tc # tcs) messages lastToolResult w =
     (let (r, w1) = tools_Execute c w (tc_Name tc) (tc_Arguments tc);
          res = (case r of Inl err \<Rightarrow> ''(tool error) '' @ err | Inr res \<Rightarrow> res)
      in execute_tool_calls c tcs
           (messages @ [\<lparr>pm_Role = ''tool'', pm_Content = res, pm_ToolCalls = [],
                          pm_ToolCallID = tc_ID tc\<rparr>])
           res w1)"

text \<open>
  The tool-calling loop of \<^verbatim>\<open>Run\<close>,
  \<^verbatim>\<open>for iteration < a.maxIterations { iteration++; ... }\<close>. The result holds the
  variables of the loop when it is left, and \<open>chat_calls\<close>, the number of calls of
  \<^verbatim>\<open>provider.Chat\<close> made, which the model counts on top of what the source computes.
\<close>

record 'w loop_result =
  finalContent :: string
  lastToolResult :: string
  loop_messages :: "ProviderMessage list"
  loop_world :: 'w
  chat_calls :: nat
  loop_log :: "string list"

function tool_loop ::
  "'w collaborators \<Rightarrow> int \<Rightarrow> int \<Rightarrow> ProviderMessage list \<Rightarrow> string \<Rightarrow> 'w \<Rightarrow> nat
     \<Rightarrow> 'w loop_result" where
  "tool_loop c maxIterations iteration messages lastTool w calls =
     (if iteration < maxIterations then
        (case fst (provider_Chat c w messages (tools_Definitions c)) of
           Inl err \<Rightarrow>
             \<lparr>finalContent = ''Sorry, I encountered an error while processing your request.'',
              lastToolResult = lastTool, loop_messages = messages,
              loop_world = snd (provider_Chat c w messages (tools_Definitions c)),
              chat_calls = Suc calls, loop_log = [''provider error: '' @ err]\<rparr>
         | Inr resp \<Rightarrow>
             if HasToolCalls resp then
               (case execute_tool_calls c (ToolCalls resp)
                       (messages @ [\<lparr>pm_Role = ''assistant'', pm_Content = resp_Content resp,
                                      pm_ToolCalls = ToolCalls resp, pm_ToolCallID = ''''\<rparr>])
                       lastTool (snd (provider_Chat c w messages (tools_Definitions c))) of
                  (messages2, lastTool2, w2) \<Rightarrow>
                    tool_loop c maxIterations (iteration + 1) messages2 lastTool2 w2 (Suc calls))
             else
               \<lparr>finalContent = resp_Content resp, lastToolResult = lastTool,
                loop_messages = messages,
                loop_world = snd (provider_Chat c w messages (tools_Definitions c)),
                chat_calls = Suc calls, loop_log = []\<rparr>)
      else
        \<lparr>finalContent = '''', lastToolResult = lastTool, loop_messages = messages,
         loop_world = w, chat_calls = calls, loop_log = []\<rparr>)"
  by pat_completeness auto
termination
  by (relation "measure (\<lambda>(c, maxIterations, iteration, messages, lastTool, w, calls).
        nat (maxIterations - iteration))") auto

declare tool_loop.simps [simp del]

text \<open>
  The loop of \<^verbatim>\<open>ProcessDirect\<close>,
  \<^verbatim>\<open>for iteration := 0; iteration < a.maxIterations; iteration++\<close>, with its returns:
  \<open>Inl\<close> is the error returned with an empty string, \<open>Inr\<close> the reply.
\<close>

record 'w direct_result =
  reply :: "string + string"
  direct_world :: 'w
  direct_calls :: nat

function direct_loop ::
  "'w collaborators \<Rightarrow> int \<Rightarrow> int \<Rightarrow> ProviderMessage list \<Rightarrow> string \<Rightarrow> 'w \<Rightarrow> nat
     \<Rightarrow> 'w direct_result" where
  "direct_loop c maxIterations iteration messages lastTool w calls =
     (if iteration < maxIterations then
        (case fst (provider_Chat c w messages (tools_Definitions c)) of
           Inl err \<Rightarrow>
             \<lparr>reply = Inl err,
              direct_world = snd (provider_Chat c w messages (tools_Definitions c)),
              direct_calls = Suc calls\<rparr>
         | Inr resp \<Rightarrow>
             if \<not> HasToolCalls resp then
               \<lparr>reply =
                  (if resp_Content resp \<noteq> '''' then Inr (resp_Content resp)
                   else if lastTool \<noteq> '''' then Inr lastTool
                   else Inr (resp_Content resp)),
                direct_world = snd (provider_Chat c w messages (tools_Definitions c)),
                direct_calls = Suc calls\<rparr>
             else
               (case execute_tool_calls c (ToolCalls resp)
                       (messages @ [\<lparr>pm_Role = ''assistant'', pm_Content = resp_Content resp,
                                      pm_ToolCalls = ToolCalls resp, pm_ToolCallID = ''''\<rparr>])
                       lastTool (snd (provider_Chat c w messages (tools_Definitions c))) of
                  (messages2, lastTool2, w2) \<Rightarrow>
                    direct_loop c maxIterations (iteration + 1) messages2 lastTool2 w2 (Suc calls)))
      else
        \<lparr>reply = Inr ''Max iterations reached without final response'',
         direct_world = w, direct_calls = calls\<rparr>)"
  by pat_completeness auto
termination
  by (relation "measure (\<lambda>(c, maxIterations, iteration, messages, lastTool, w, calls).
        nat (maxIterations - iteration))") auto

declare direct_loop.simps [simp del]

text \<open>
  \<^verbatim>\<open>AgentLoop\<close>: the fields that \<^verbatim>\<open>Run\<close> and \<^verbatim>\<open>ProcessDirect\<close> use, with the
  outside world the collaborators act on. \<open>None\<close> for the persistent memory is the
  \<^verbatim>\<open>nil\<close> of a configuration without it.
\<close>

record 'w AgentLoop =
  al_hub :: Hub
  al_sessions :: SessionManager
  al_context :: ContextBuilder
  al_memory :: MemoryStore
  al_memoryPersist :: "MemoryPersist option"
  al_maxIterations :: int
  al_world :: 'w

text \<open>
  What happens around one message and is not decided by the loop: the clock that stamps
  the session messages and the note, whether today's note can be written, and whether
  the session file can be written.
\<close>

record io =
  io_now :: string
  io_append_ok :: bool
  io_write_ok :: bool

record 'w outcome =
  new_state :: "'w AgentLoop"
  provider_calls :: nat
  logged :: "string list"

text \<open>A session reached through the pointer \<^verbatim>\<open>GetOrCreate\<close> returned.\<close>

definition session_at :: "string \<Rightarrow> SessionManager \<Rightarrow> Session" where
  "session_at key sm =
     (case map_of (sessions sm) key of Some s \<Rightarrow> s | None \<Rightarrow> \<lparr>Key = key, History = []\<rparr>)"

definition AddMessage_at :: "string \<Rightarrow> string \<Rightarrow> string \<Rightarrow> string \<Rightarrow> SessionManager \<Rightarrow> SessionManager" where
  "AddMessage_at now key r c sm = put_session key (AddMessage now r c (session_at key sm)) sm"

text \<open>The non-blocking send of a reply on \<^verbatim>\<open>hub.Out\<close>.\<close>

definition send_out :: "Outbound \<Rightarrow> Hub \<Rightarrow> Hub \<times> string list" where
  "send_out out h =
     (case try_send (buffer h) (Out h) out of
        (True, q) \<Rightarrow> (h\<lparr>Out := q\<rparr>, [])
      | (False, q) \<Rightarrow> (h, [''Outbound channel full, dropping message'']))"

definition reply_to :: "Inbound \<Rightarrow> string \<Rightarrow> Outbound" where
  "reply_to msg text =
     \<lparr>out_Channel = in_Channel msg, out_ChatID = in_ChatID msg, out_Content = text,
      out_ReplyTo = '''', out_Media = [], out_Metadata = []\<rparr>"

text \<open>
  The three statements that put a turn into the session, the same in both branches of
  \<^verbatim>\<open>Run\<close>: \<^verbatim>\<open>GetOrCreate(msg.Channel + ":" + msg.ChatID)\<close>, then
  \<^verbatim>\<open>AddMessage("user", msg.Content)\<close> and \<^verbatim>\<open>AddMessage("assistant", ...)\<close>. In the
  second branch the session is looked up before the loop runs, which does not touch
  the sessions.
\<close>

definition session_key :: "Inbound \<Rightarrow> string" where
  "session_key msg = in_Channel msg @ '':'' @ in_ChatID msg"

definition record_turn :: "io \<Rightarrow> Inbound \<Rightarrow> string \<Rightarrow> SessionManager \<Rightarrow> SessionManager" where
  "record_turn e msg answer sm =
     (let sm1 = snd (GetOrCreate (session_key msg) sm);
          sm2 = AddMessage_at (io_now e) (session_key msg) ''user'' (in_Content msg) sm1
      in AddMessage_at (io_now e) (session_key msg) ''assistant'' answer sm2)"

text \<open>The branch of \<^verbatim>\<open>Run\<close> taken when the remember pattern matches, up to \<^verbatim>\<open>continue\<close>.\<close>

definition remember_turn :: "io \<Rightarrow> Inbound \<Rightarrow> string \<Rightarrow> 'w AgentLoop \<Rightarrow> 'w outcome" where
  "remember_turn e msg note a =
     (let (err, mem1) = AppendToday (io_append_ok e) (io_now e) note (al_memory a);
          log1 = (case err of None \<Rightarrow> [] | Some x \<Rightarrow> [''error appending to memory: '' @ x]);
          (hub1, log2) = send_out (reply_to msg ''OK, I've remembered that.'') (al_hub a);
          sm3 = record_turn e msg ''OK, I've remembered that.'' (al_sessions a);
          sm4 = snd (Save (io_write_ok e) (session_key msg) sm3)
      in \<lparr>new_state = a\<lparr>al_memory := mem1, al_hub := hub1, al_sessions := sm4\<rparr>,
          provider_calls = 0, logged = log1 @ log2\<rparr>)"

text \<open>The query of persistent memory in \<^verbatim>\<open>Run\<close> and the items built from its result.\<close>

definition recall :: "float_model \<Rightarrow> MemoryPersist option \<Rightarrow> Inbound \<Rightarrow> MemoryItem list \<times> string list" where
  "recall fm mp msg =
     (case mp of
        None \<Rightarrow> ([], [])
      | Some m \<Rightarrow>
          (case QueryHistory fm m (in_Channel msg @ in_ChatID msg) (in_Content msg) 0 of
             Inl err \<Rightarrow> ([], [''Failed to query persistent memory: '' @ err])
           | Inr memx \<Rightarrow>
               (map (\<lambda>m. \<lparr>Kind = ''Persistent'', mi_Role = mi_Role m, Text = Text m,
                            Similarity = Similarity m, mi_Timestamp = mi_Timestamp m\<rparr>) memx,
                [])))"

text \<open>The choice of the reply after the loop of \<^verbatim>\<open>Run\<close>.\<close>

definition final_reply :: "string \<Rightarrow> string \<Rightarrow> string" where
  "final_reply final lastTool =
     (if final = '''' \<and> lastTool \<noteq> '''' then lastTool
      else if final = '''' then ''I've completed processing but have no response to give.''
      else final)"

text \<open>
  The archive of the trimmed history:
  \<^verbatim>\<open>for _, m := range msgs { if m.Role != "user" { StoreHistory(msg.Channel+msg.ChatID, ...) } }\<close>.
\<close>

fun store_trimmed ::
  "float_model \<Rightarrow> string \<Rightarrow> Message list \<Rightarrow> MemoryPersist \<Rightarrow> MemoryPersist \<times> string list" where
  "store_trimmed fm channelID [] m = (m, [])"
| "store_trimmed fm channelID (x # xs) m =
     (if Role x \<noteq> ''user'' then
        (let (err, m1) = StoreHistory fm channelID (Role x) (Content x) (Timestamp x) m;
             (m2, logs) = store_trimmed fm channelID xs m1
         in (m2, (case err of None \<Rightarrow> [] | Some e \<Rightarrow> [''Failed to store trimmed history: '' @ e]) @ logs))
      else store_trimmed fm channelID xs m)"

definition archive ::
  "float_model \<Rightarrow> Inbound \<Rightarrow> MemoryPersist option \<Rightarrow> SessionManager
     \<Rightarrow> MemoryPersist option \<times> SessionManager \<times> string list" where
  "archive fm msg mp sm =
     (case mp of
        Some m \<Rightarrow>
          (let (msgs, sm1) = TrimAll sm;
               (m1, logs) = store_trimmed fm (in_Channel msg @ in_ChatID msg) msgs m
           in (Some m1, sm1, logs))
      | None \<Rightarrow> (None, snd (TrimAll sm), []))"

text \<open>
  Steps of \<^verbatim>\<open>Run\<close> for one message when the pattern does not match: the tool
  context, the session, the two memories, the messages of the turn and the
  tool-calling loop. The result is what the loop leaves and the lines logged by the
  query of persistent memory.
\<close>

definition turn_loop ::
  "float_model \<Rightarrow> 'w collaborators \<Rightarrow> Inbound \<Rightarrow> 'w AgentLoop \<Rightarrow> 'w loop_result \<times> string list" where
  "turn_loop fm c msg a =
     (let w0 = tools_SetContext c (in_Channel msg) (in_ChatID msg) (al_world a);
          session = fst (GetOrCreate (session_key msg) (al_sessions a));
          memCtx = GetMemoryContext (al_memory a);
          (memories, log1) = recall fm (al_memoryPersist a) msg;
          messages = BuildMessages (al_context a) (History session) (in_Content msg)
                       (in_Channel msg) (in_ChatID msg) memCtx memories
      in (tool_loop c (al_maxIterations a) 0 messages '''' w0 0, log1))"

text \<open>The rest of the body of \<^verbatim>\<open>Run\<close> for one message, when the pattern does not match.\<close>

definition chat_turn ::
  "float_model \<Rightarrow> 'w collaborators \<Rightarrow> io \<Rightarrow> Inbound \<Rightarrow> 'w AgentLoop \<Rightarrow> 'w outcome" where
  "chat_turn fm c e msg a =
     (let (r, log1) = turn_loop fm c msg a;
          final = final_reply (finalContent r) (lastToolResult r);
          sm3 = record_turn e msg final (al_sessions a);
          (mp1, sm4, log2) = archive fm msg (al_memoryPersist a) sm3;
          sm5 = snd (Save (io_write_ok e) (session_key msg) sm4);
          (hub1, log3) = send_out (reply_to msg final) (al_hub a)
      in \<lparr>new_state = a\<lparr>al_world := loop_world r, al_sessions := sm5, al_memoryPersist := mp1,
                          al_hub := hub1\<rparr>,
          provider_calls = chat_calls r,
          logged = log1 @ loop_log r @ log2 @ log3\<rparr>)"

text \<open>
  The body of \<^verbatim>\<open>case msg, ok := <-a.hub.In\<close> in \<^verbatim>\<open>Run\<close>: what the loop does with
  one inbound message.
\<close>

definition handle_inbound ::
  "float_model \<Rightarrow> 'w collaborators \<Rightarrow> io \<Rightarrow> Inbound \<Rightarrow> 'w AgentLoop \<Rightarrow> 'w outcome" where
  "handle_inbound fm c e msg a =
     (case rememberRE (TrimSpace (in_Content msg)) of
        Some note \<Rightarrow> remember_turn e msg note a
      | None \<Rightarrow> chat_turn fm c e msg a)"

text \<open>
  \<^verbatim>\<open>func (a *AgentLoop) ProcessDirect(content string, timeout time.Duration) (string, error)\<close>.
  The deadline is part of what the provider and the tools do with the world.
\<close>

definition ProcessDirect :: "'w collaborators \<Rightarrow> string \<Rightarrow> 'w AgentLoop \<Rightarrow> 'w direct_result" where
  "ProcessDirect c content a =
     (let w0 = tools_SetContext c ''cli'' ''direct'' (al_world a);
          memCtx = GetMemoryContext (al_memory a);
          memories = [];
          messages = BuildMessages (al_context a) [] content ''cli'' ''direct'' memCtx memories
      in direct_loop c (al_maxIterations a) 0 messages '''' w0 0)"


section \<open>Concrete inputs\<close>

text \<open>
  A session of 51 messages, one old message followed by 50 later ones, the manager
  that holds it, and a session of two messages.
\<close>

definition c2_oldest :: Message where
  "c2_oldest = \<lparr>Role = ''assistant'', Content = ''oldest'', Timestamp = ''2024-01-01T00:00:00Z''\<rparr>"

definition c2_recent :: Message where
  "c2_recent = \<lparr>Role = ''user'', Content = ''hello'', Timestamp = ''2024-01-02T00:00:00Z''\<rparr>"

definition c2_long_session :: Session where
  "c2_long_session = \<lparr>Key = ''telegram:42'', History = c2_oldest # replicate 50 c2_recent\<rparr>"

definition c2_short_session :: Session where
  "c2_short_session = \<lparr>Key = ''ntfy:default'', History = [c2_recent, c2_oldest]\<rparr>"

definition c2_manager :: SessionManager where
  "c2_manager = \<lparr>sessions = [(''telegram:42'', c2_long_session)], files = Map.empty\<rparr>"

definition c9_cli_msg :: Outbound where
  "c9_cli_msg = \<lparr>out_Channel = ''cli'', out_ChatID = ''direct'', out_Content = ''hello'',
                 out_ReplyTo = '''', out_Media = [], out_Metadata = []\<rparr>"

definition c9_ntfy_msg :: Outbound where
  "c9_ntfy_msg = \<lparr>out_Channel = ''ntfy'', out_ChatID = ''default'', out_Content = ''ping'',
                  out_ReplyTo = '''', out_Media = [], out_Metadata = []\<rparr>"

definition c9_hub :: Hub where
  "c9_hub = (NewHub 4)\<lparr>Out := [c9_cli_msg, c9_ntfy_msg]\<rparr>"

definition c9_hub_after :: Hub where
  "c9_hub_after = (NewHub 4)\<lparr>Out := [c9_ntfy_msg]\<rparr>"

definition c9_logs :: "string list" where
  "c9_logs = [''unknown channel type: cli'']"

text \<open>
  A float model for the examples: no rounding (the examples use values on which
  \<^verbatim>\<open>float32\<close> arithmetic is exact), the IEEE 754 value of a finite single-precision
  bit pattern, and the bit patterns of the few values the examples encode.
\<close>

definition ieee_single_value :: "32 word \<Rightarrow> real" where
  "ieee_single_value w =
     (let e = unat (take_bit 8 (drop_bit 23 w));
          m = unat (take_bit 23 w);
          mag = (if e = 0 then real m / 2 ^ 149 else (2 ^ 23 + real m) * 2 ^ e / 2 ^ 150)
      in if bit w 31 then - mag else mag)"

definition example_bits :: "real \<Rightarrow> 32 word" where
  "example_bits x =
     (if x = 0 then 0x00000000 else if x = 1 then 0x3F800000 else if x = 2 then 0x40000000
      else if x = 1 / 2 then 0x3F000000 else if x = - 1 then 0xBF800000 else 0x7FC00000)"

definition example_model :: float_model where
  "example_model =
     \<lparr>rnd32 = (\<lambda>x. x), rnd64 = (\<lambda>x. x),
      Float32frombits = ieee_single_value, Float32bits = example_bits\<rparr>"

text \<open>The bytes of \<^verbatim>\<open>float32(1.0)\<close>, and a blob that is not a whole number of floats.\<close>

definition blob_one :: "8 word list" where
  "blob_one = [0x00, 0x00, 0x80, 0x3F]"

definition blob_ragged :: "8 word list" where
  "blob_ragged = [0x01, 0x02, 0x03]"





text \<open>
  A persistent memory built from a configuration without threshold and top-K, whose
  embedder maps every text to the unit vector \<open>[1]\<close>, over three stored rows.
\<close>

definition c1_config :: MemoryConfig where
  "c1_config = \<lparr>Enabled = True, EmbedType = ''onnx'', Threshold = 0, TopK = 0\<rparr>"

definition c1_embed :: "string \<Rightarrow> string + real list" where
  "c1_embed text = Inr [1]"

definition c1_row_a :: history_row where
  "c1_row_a =
     \<lparr>row_id = 1, channel_id = ''c1'', row_role = ''assistant'', row_content = ''the password is 42'',
      row_timestamp = ''2024-01-01T00:00:00Z'', embedding = blob_one\<rparr>"

definition c1_row_b :: history_row where
  "c1_row_b =
     \<lparr>row_id = 2, channel_id = ''c2'', row_role = ''assistant'', row_content = ''another chat'',
      row_timestamp = ''2024-01-01T00:00:00Z'', embedding = blob_one\<rparr>"

definition c1_row_c :: history_row where
  "c1_row_c =
     \<lparr>row_id = 3, channel_id = ''c1'', row_role = ''assistant'', row_content = ''unrelated'',
      row_timestamp = ''2024-01-01T00:00:00Z'', embedding = [0x00, 0x00, 0x00, 0x00]\<rparr>"

definition c1_rows :: "history_row list" where
  "c1_rows = [c1_row_a, c1_row_b, c1_row_c]"

definition c1_memory :: MemoryPersist where
  "c1_memory = \<lparr>embedder = c1_embed, db = [], threshold = 87 / 100, topk = 10\<rparr>"

definition c1_results :: "MemoryItem list" where
  "c1_results =
     [\<lparr>Kind = '''', mi_Role = ''assistant'', Text = ''the password is 42'', Similarity = 1,
       mi_Timestamp = ''2024-01-01T00:00:00Z''\<rparr>]"

















section \<open>Properties of the session manager\<close>

lemma Trim_concat: "fst (Trim s) @ History (snd (Trim s)) = History s"
  by (simp add: Trim_def)

lemma Trim_length: "length (History (snd (Trim s))) \<le> MaxHistorySize"
  by (simp add: Trim_def)

lemma Trim_Key: "Key (snd (Trim s)) = Key s"
  by (simp add: Trim_def)

lemma Trim_small: "length (History s) \<le> MaxHistorySize \<Longrightarrow> Trim s = ([], s)"
  by (simp add: Trim_def)

lemma map_of_replace:
  "map_of xs key = Some s0 \<Longrightarrow>
   map_of (map (\<lambda>(k, v). if k = key then (k, s) else (k, v)) xs) key = Some s"
  by (induction xs) (auto split: if_splits)

lemma map_of_put_session:
  "map_of (sessions sm) key = Some s0 \<Longrightarrow> map_of (sessions (put_session key s sm)) key = Some s"
  by (simp add: put_session_def map_of_replace)

lemma Save_session_eq:
  "Save_session write_ok s fs =
     (write_ok, snd (Trim s), if write_ok then fs(Key s @ ''.json'' \<mapsto> snd (Trim s)) else fs)"
  by (simp add: Save_session_def Let_def Trim_Key)

text \<open>
  Claim C2. \<^verbatim>\<open>Trim\<close> returns the discarded prefix: the prefix followed by the
  remaining history is the history before the call; at most 50 messages remain; the
  prefix is empty and the session unchanged when the history had at most 50 messages;
  and a longer history keeps exactly 50 messages. \<^verbatim>\<open>Save\<close> trims before it writes:
  the session it leaves, in the manager's map too, is the trimmed one, and when the
  write succeeds the file \<^verbatim>\<open>{Key}.json\<close> holds that trimmed session; when it fails
  the files are as before and the session is trimmed all the same. So after every
  \<^verbatim>\<open>Save\<close> the session's history has at most 50 messages.
\<close>

theorem C2_trim_prefix_and_save_bound:
  "fst (Trim s) @ History (snd (Trim s)) = History s
   \<and> length (History (snd (Trim s))) \<le> 50
   \<and> (length (History s) \<le> 50 \<longrightarrow> fst (Trim s) = [] \<and> snd (Trim s) = s)
   \<and> (50 < length (History s) \<longrightarrow>
        length (History (snd (Trim s))) = 50 \<and> length (fst (Trim s)) = length (History s) - 50)
   \<and> Save_session write_ok s fs =
        (write_ok, snd (Trim s), if write_ok then fs(Key s @ ''.json'' \<mapsto> snd (Trim s)) else fs)
   \<and> (map_of (sessions sm) key = Some s \<longrightarrow>
        fst (Save write_ok key sm) = write_ok
        \<and> map_of (sessions (snd (Save write_ok key sm))) key = Some (snd (Trim s))
        \<and> files (snd (Save write_ok key sm)) =
            (if write_ok then (files sm)(Key s @ ''.json'' \<mapsto> snd (Trim s)) else files sm))"
proof -
  have a: "fst (Trim s) @ History (snd (Trim s)) = History s"
    by (rule Trim_concat)
  have b: "length (History (snd (Trim s))) \<le> 50"
    using Trim_length [of s] by (simp add: MaxHistorySize_def)
  have c: "length (History s) \<le> 50 \<longrightarrow> fst (Trim s) = [] \<and> snd (Trim s) = s"
    by (simp add: Trim_def MaxHistorySize_def)
  have d: "50 < length (History s) \<longrightarrow>
        length (History (snd (Trim s))) = 50 \<and> length (fst (Trim s)) = length (History s) - 50"
    by (simp add: Trim_def MaxHistorySize_def)
  have e: "Save_session write_ok s fs =
        (write_ok, snd (Trim s), if write_ok then fs(Key s @ ''.json'' \<mapsto> snd (Trim s)) else fs)"
    by (rule Save_session_eq)
  have f: "map_of (sessions sm) key = Some s \<longrightarrow>
        fst (Save write_ok key sm) = write_ok
        \<and> map_of (sessions (snd (Save write_ok key sm))) key = Some (snd (Trim s))
        \<and> files (snd (Save write_ok key sm)) =
            (if write_ok then (files sm)(Key s @ ''.json'' \<mapsto> snd (Trim s)) else files sm)"
  proof
    assume h: "map_of (sessions sm) key = Some s"
    have sv: "Save write_ok key sm =
        (write_ok, (put_session key (snd (Trim s)) sm)
           \<lparr>files := if write_ok then (files sm)(Key s @ ''.json'' \<mapsto> snd (Trim s)) else files sm\<rparr>)"
      using h by (simp add: Save_def Save_session_eq)
    have p: "files (put_session key (snd (Trim s)) sm) = files sm"
      by (simp add: put_session_def)
    show "fst (Save write_ok key sm) = write_ok
        \<and> map_of (sessions (snd (Save write_ok key sm))) key = Some (snd (Trim s))
        \<and> files (snd (Save write_ok key sm)) =
            (if write_ok then (files sm)(Key s @ ''.json'' \<mapsto> snd (Trim s)) else files sm)"
      unfolding sv using map_of_put_session [OF h, of "snd (Trim s)"] by simp
  qed
  from a b c d e f show ?thesis by blast
qed

text \<open>
  The theorem at a session of 51 messages held by a manager: the oldest message is
  returned, the 50 later ones remain, and the file written by \<^verbatim>\<open>Save\<close> holds them.
  The case of a short history is shown on a session of two messages.
\<close>

lemma Trim_c2_long:
  "Trim c2_long_session = ([c2_oldest], c2_long_session\<lparr>History := replicate 50 c2_recent\<rparr>)"
  by (simp add: Trim_def MaxHistorySize_def c2_long_session_def)

theorem C2_trim_prefix_and_save_bound_witness:
  "50 < length (History c2_long_session)
   \<and> map_of (sessions c2_manager) ''telegram:42'' = Some c2_long_session
   \<and> fst (Trim c2_long_session) = [c2_oldest]
   \<and> length (History (snd (Trim c2_long_session))) = 50
   \<and> map_of (sessions (snd (Save True ''telegram:42'' c2_manager))) ''telegram:42''
        = Some (c2_long_session\<lparr>History := replicate 50 c2_recent\<rparr>)
   \<and> files (snd (Save True ''telegram:42'' c2_manager)) ''telegram:42.json''
        = Some (c2_long_session\<lparr>History := replicate 50 c2_recent\<rparr>)
   \<and> length (History c2_short_session) \<le> 50
   \<and> fst (Trim c2_short_session) = []"
proof -
  have h1: "50 < length (History c2_long_session)"
    by (simp add: c2_long_session_def)
  have h2: "map_of (sessions c2_manager) ''telegram:42'' = Some c2_long_session"
    by (simp add: c2_manager_def)
  have h3: "length (History c2_short_session) \<le> 50"
    by (simp add: c2_short_session_def)
  have k: "Key c2_long_session = ''telegram:42''"
    by (simp add: c2_long_session_def)
  note long = C2_trim_prefix_and_save_bound
      [of c2_long_session True Map.empty c2_manager "''telegram:42''"]
  note short = C2_trim_prefix_and_save_bound
      [of c2_short_session True Map.empty c2_manager "''telegram:42''"]
  have 1: "length (History (snd (Trim c2_long_session))) = 50"
    using long h1 by blast
  have 2: "map_of (sessions (snd (Save True ''telegram:42'' c2_manager))) ''telegram:42''
        = Some (snd (Trim c2_long_session))"
    using long h2 by blast
  have "files (snd (Save True ''telegram:42'' c2_manager)) =
          (if True then (files c2_manager)(Key c2_long_session @ ''.json'' \<mapsto> snd (Trim c2_long_session))
           else files c2_manager)"
    using long h2 by blast
  then have 3: "files (snd (Save True ''telegram:42'' c2_manager)) ''telegram:42.json''
        = Some (snd (Trim c2_long_session))"
    by (simp add: k)
  have 4: "fst (Trim c2_short_session) = []"
    using short h3 by blast
  from h1 h2 h3 1 2 3 4 show ?thesis
    by (simp add: Trim_c2_long)
qed

section \<open>Properties of the transport proxy\<close>

lemma try_send_cases:
  "try_send cap q v = (True, q @ [v]) \<or> try_send cap q v = (False, q)"
  by (simp add: try_send_def)

lemma proxy_dispatch_telegram:
  "TelegramOut (fst (proxy_dispatch msg hub)) = TelegramOut hub
   \<or> (out_Channel msg = ''telegram''
       \<and> TelegramOut (fst (proxy_dispatch msg hub)) = TelegramOut hub @ [msg])"
  by (simp add: proxy_dispatch_def try_send_def)

lemma proxy_dispatch_ntfy:
  "NtfyOut (fst (proxy_dispatch msg hub)) = NtfyOut hub
   \<or> (out_Channel msg = ''ntfy''
       \<and> NtfyOut (fst (proxy_dispatch msg hub)) = NtfyOut hub @ [msg])"
  by (simp add: proxy_dispatch_def try_send_def)

lemma proxy_dispatch_other:
  "In (fst (proxy_dispatch msg hub)) = In hub \<and> Out (fst (proxy_dispatch msg hub)) = Out hub
   \<and> buffer (fst (proxy_dispatch msg hub)) = buffer hub"
  by (simp add: proxy_dispatch_def try_send_def)

lemma proxy_dispatch_unknown:
  "out_Channel msg \<noteq> ''telegram'' \<Longrightarrow> out_Channel msg \<noteq> ''ntfy'' \<Longrightarrow>
   proxy_dispatch msg hub = (hub, [''unknown channel type: '' @ out_Channel msg])"
  by (simp add: proxy_dispatch_def)

text \<open>
  Claim C9. When the proxy takes a message from the generic outbound queue, the only
  per-transport queue that can change is the one named by the message's channel, and
  it changes only by receiving that message at its end; the inbound queue is untouched
  and the message leaves the generic queue. A message whose channel is neither
  \<^verbatim>\<open>"telegram"\<close> nor \<^verbatim>\<open>"ntfy"\<close> changes no per-transport queue at all: it is
  logged as an unknown channel type and dropped.
\<close>

theorem C9_proxy_routes_by_channel:
  "proxy_step hub = Some (hub', logs) \<Longrightarrow>
   (\<exists>msg rest. Out hub = msg # rest \<and> Out hub' = rest \<and> In hub' = In hub
      \<and> (TelegramOut hub' = TelegramOut hub
          \<or> (out_Channel msg = ''telegram'' \<and> TelegramOut hub' = TelegramOut hub @ [msg]))
      \<and> (NtfyOut hub' = NtfyOut hub
          \<or> (out_Channel msg = ''ntfy'' \<and> NtfyOut hub' = NtfyOut hub @ [msg]))
      \<and> (out_Channel msg \<noteq> ''telegram'' \<and> out_Channel msg \<noteq> ''ntfy'' \<longrightarrow>
            TelegramOut hub' = TelegramOut hub \<and> NtfyOut hub' = NtfyOut hub
            \<and> logs = [''unknown channel type: '' @ out_Channel msg]))"
proof -
  assume step: "proxy_step hub = Some (hub', logs)"
  then obtain msg rest where o: "Out hub = msg # rest"
    and d: "proxy_dispatch msg (hub\<lparr>Out := rest\<rparr>) = (hub', logs)"
    by (auto simp: proxy_step_def split: list.splits)
  let ?h = "hub\<lparr>Out := rest\<rparr>"
  have h': "hub' = fst (proxy_dispatch msg ?h)" using d by simp
  have 1: "Out hub' = rest \<and> In hub' = In hub"
    using proxy_dispatch_other [of msg ?h] h' by simp
  have 2: "TelegramOut hub' = TelegramOut hub
          \<or> (out_Channel msg = ''telegram'' \<and> TelegramOut hub' = TelegramOut hub @ [msg])"
    using proxy_dispatch_telegram [of msg ?h] h' by simp
  have 3: "NtfyOut hub' = NtfyOut hub
          \<or> (out_Channel msg = ''ntfy'' \<and> NtfyOut hub' = NtfyOut hub @ [msg])"
    using proxy_dispatch_ntfy [of msg ?h] h' by simp
  have 4: "out_Channel msg \<noteq> ''telegram'' \<and> out_Channel msg \<noteq> ''ntfy'' \<longrightarrow>
            TelegramOut hub' = TelegramOut hub \<and> NtfyOut hub' = NtfyOut hub
            \<and> logs = [''unknown channel type: '' @ out_Channel msg]"
    using proxy_dispatch_unknown [of msg ?h] d by auto
  from o 1 2 3 4 show ?thesis by blast
qed

theorem C9_proxy_routes_by_channel_witness:
  "proxy_step c9_hub = Some (c9_hub_after, c9_logs)
   \<and> TelegramOut c9_hub_after = TelegramOut c9_hub
   \<and> NtfyOut c9_hub_after = NtfyOut c9_hub
   \<and> Out c9_hub_after = [c9_ntfy_msg]
   \<and> c9_logs = [''unknown channel type: cli'']"
proof -
  have s: "proxy_step c9_hub = Some (c9_hub_after, c9_logs)"
    by (simp add: proxy_step_def proxy_dispatch_def c9_hub_def c9_hub_after_def c9_logs_def
          c9_cli_msg_def NewHub_def)
  have c: "out_Channel c9_cli_msg \<noteq> ''telegram'' \<and> out_Channel c9_cli_msg \<noteq> ''ntfy''"
    by (simp add: c9_cli_msg_def)
  have o: "Out c9_hub = c9_cli_msg # [c9_ntfy_msg]"
    by (simp add: c9_hub_def)
  from C9_proxy_routes_by_channel [OF s] o c show ?thesis
    using s by (auto simp: c9_cli_msg_def)
qed

section \<open>Properties of the scalar functions\<close>

lemma or_disj: "(\<And>n. \<not> bit a n \<or> \<not> bit b n) \<Longrightarrow> a OR b = a + (b :: 32 word)"
  by (simp add: disjunctive_add)

lemma Uint32_le_word32:
  "LittleEndian_Uint32 (b0 # b1 # b2 # b3 # rest) = le_word32 b0 b1 b2 b3"
proof -
  let ?a = "ucast b0 :: 32 word" and ?b = "push_bit 8 (ucast b1) :: 32 word"
  and ?c = "push_bit 16 (ucast b2) :: 32 word" and ?d = "push_bit 24 (ucast b3) :: 32 word"
  have 1: "?c OR ?d = ?c + ?d"
    by (rule or_disj) (auto simp: bit_simps dest!: bit_imp_le_length)
  have 2: "?b OR (?c OR ?d) = ?b + (?c OR ?d)"
    by (rule or_disj) (auto simp: bit_simps dest!: bit_imp_le_length)
  have 3: "?a OR (?b OR (?c OR ?d)) = ?a + (?b OR (?c OR ?d))"
    by (rule or_disj) (auto simp: bit_simps dest!: bit_imp_le_length)
  have "LittleEndian_Uint32 (b0 # b1 # b2 # b3 # rest) = ?a + (?b + (?c + ?d))"
    unfolding LittleEndian_Uint32_def using 1 2 3 by (simp add: or.assoc)
  also have "\<dots> = le_word32 b0 b1 b2 b3"
    unfolding le_word32_def by (simp add: push_bit_eq_mult)
  finally show ?thesis .
qed

lemma map_upt_Suc_shift: "map f [0..<Suc n] = f 0 # map (\<lambda>i. f (Suc i)) [0..<n]"
  by (simp add: map_upt_Suc del: upt_Suc)

lemma foldl_upt_Suc_shift:
  "foldl f a [0..<Suc n] = foldl (\<lambda>acc i. f acc (Suc i)) (f a 0) [0..<n]"
proof -
  have "[0..<Suc n] = 0 # map Suc [0..<n]"
    by (simp add: upt_conv_Cons map_Suc_upt del: upt_Suc)
  then show ?thesis by (simp add: foldl_map del: upt_Suc)
qed

lemma drop_4_Cons: "drop (4 + n) (b0 # b1 # b2 # b3 # rest) = drop n rest"
proof -
  have "4 + n = Suc (Suc (Suc (Suc n)))" by simp
  then show ?thesis by (simp only: drop_Suc_Cons)
qed

lemma bytesToFloats_array:
  "length b mod 4 = 0 \<Longrightarrow> bytesToFloats fm b = Some (le_float32_array fm b)"
proof (induction fm b rule: le_float32_array.induct)
  case (1 fm b0 b1 b2 b3 rest)
  from "1.prems" have m: "length rest mod 4 = 0" by simp
  have d: "(length (b0 # b1 # b2 # b3 # rest)) div 4 = Suc (length rest div 4)" by simp
  from "1.IH" [OF m] have ih: "map (\<lambda>i. Float32frombits fm (LittleEndian_Uint32 (drop (i * 4) rest)))
                   [0..<length rest div 4] = le_float32_array fm rest"
    using m by (simp add: bytesToFloats_def)
  show ?case
    unfolding bytesToFloats_def using "1.prems" ih
    by (simp only: d map_upt_Suc_shift) (simp add: Uint32_le_word32 drop_4_Cons)
qed (simp_all add: bytesToFloats_def)

lemma dot_loop_acc:
  "length xs = length ys \<Longrightarrow>
   foldl (\<lambda>dot i. rnd64 fm (dot + rnd32 fm (xs ! i * ys ! i))) acc [0..<length xs]
     = dot_product fm acc xs ys"
proof (induction xs ys arbitrary: acc rule: list_induct2)
  case Nil
  then show ?case by simp
next
  case (Cons x xs y ys)
  show ?case
    using Cons.IH [of "rnd64 fm (acc + rnd32 fm (x * y))"]
    by (simp add: foldl_upt_Suc_shift del: upt_Suc)
qed

lemma dot_loop_product:
  "length xs = length ys \<Longrightarrow> dot_loop fm xs ys = dot_product fm 0 xs ys"
  using dot_loop_acc [of xs ys fm 0] by (simp add: dot_loop_def)

lemma length_le_float32_array:
  "length (le_float32_array fm b) = length b div 4"
  by (induction fm b rule: le_float32_array.induct) simp_all

lemma pad_blobs_zero_pad:
  "pad_blobs a b = (zero_pad (max (length a) (length b)) a, zero_pad (max (length a) (length b)) b)"
  by (simp add: pad_blobs_def zero_pad_def Let_def)

lemma length_zero_pad: "length (zero_pad n b) = max n (length b)"
  by (simp add: zero_pad_def)

lemma sim_blobs:
  assumes "length a mod 4 = 0" "length b mod 4 = 0"
  shows "cosineSimilarityScalar fm [VBlob a, VBlob b] =
     Inr (dot_product fm 0 (le_float32_array fm (zero_pad (max (length a) (length b)) a))
                           (le_float32_array fm (zero_pad (max (length a) (length b)) b)))"
proof -
  let ?n = "max (length a) (length b)"
  let ?a = "zero_pad ?n a" and ?b = "zero_pad ?n b"
  have la: "length ?a = ?n" and lb: "length ?b = ?n" by (simp_all add: length_zero_pad)
  have m: "?n mod 4 = 0" using assms by (simp add: max_def)
  have fa: "bytesToFloats fm ?a = Some (le_float32_array fm ?a)"
    by (rule bytesToFloats_array) (simp add: la m)
  have fb: "bytesToFloats fm ?b = Some (le_float32_array fm ?b)"
    by (rule bytesToFloats_array) (simp add: lb m)
  have ll: "length (le_float32_array fm ?a) = length (le_float32_array fm ?b)"
    by (simp add: length_le_float32_array la lb)
  show ?thesis
  proof (cases "?n = 0")
    case True
    then have "a = []" "b = []" by (auto simp: max_def split: if_splits)
    then show ?thesis
      by (simp add: cosineSimilarityScalar_def pad_blobs_def zero_pad_def)
  next
    case False
    then show ?thesis
      using assms la lb fa fb dot_loop_product [OF ll]
      by (simp add: cosineSimilarityScalar_def pad_blobs_zero_pad)
  qed
qed

lemma dot_product_exact:
  "exact fm \<Longrightarrow> dot_product fm acc xs ys = acc + (\<Sum>(x, y)\<leftarrow>zip xs ys. x * y)"
  by (induction fm acc xs ys rule: dot_product.induct) (simp_all add: exact_def)

lemma zero_pad_same: "length b = n \<Longrightarrow> zero_pad n b = b"
  by (simp add: zero_pad_def)

text \<open>
  Claim C5. On two BLOBs whose lengths are multiples of 4, \<^verbatim>\<open>cosine_similarity\<close>
  never fails, whether or not the lengths agree: it returns the dot product of the two
  arguments read as little-endian \<^verbatim>\<open>float32\<close> arrays, the shorter one padded with
  zero bytes to the length of the longer. In exact arithmetic, for arguments of equal
  length whose vectors have Euclidean norm 1, that value is their cosine similarity.
\<close>

theorem C5_cosine_similarity_zero_pads:
  assumes "length a mod 4 = 0" and "length b mod 4 = 0"
  shows "cosineSimilarityScalar fm [VBlob a, VBlob b] =
     Inr (dot_product fm 0 (le_float32_array fm (zero_pad (max (length a) (length b)) a))
                           (le_float32_array fm (zero_pad (max (length a) (length b)) b)))
   \<and> (exact fm \<and> length a = length b
        \<and> l2_norm (le_float32_array fm a) = 1 \<and> l2_norm (le_float32_array fm b) = 1 \<longrightarrow>
        cosineSimilarityScalar fm [VBlob a, VBlob b] =
          Inr (cosine (le_float32_array fm a) (le_float32_array fm b)))"
proof (intro impI conjI)
  show s: "cosineSimilarityScalar fm [VBlob a, VBlob b] =
     Inr (dot_product fm 0 (le_float32_array fm (zero_pad (max (length a) (length b)) a))
                           (le_float32_array fm (zero_pad (max (length a) (length b)) b)))"
    using assms by (rule sim_blobs)
  assume e: "exact fm \<and> length a = length b
        \<and> l2_norm (le_float32_array fm a) = 1 \<and> l2_norm (le_float32_array fm b) = 1"
  then have "zero_pad (max (length a) (length b)) a = a" "zero_pad (max (length a) (length b)) b = b"
    by (simp_all add: zero_pad_same)
  with s e show "cosineSimilarityScalar fm [VBlob a, VBlob b] =
          Inr (cosine (le_float32_array fm a) (le_float32_array fm b))"
    by (simp add: dot_product_exact cosine_def)
qed

lemma le_float32_array_one: "le_float32_array example_model blob_one = [1]"
  by (simp add: blob_one_def example_model_def le_word32_def ieee_single_value_def)

lemma replicate_4: "replicate 4 x = [x, x, x, x]"
  by (simp add: numeral_eq_Suc)

lemma le_float32_array_pad: "le_float32_array example_model (zero_pad 4 []) = [0]"
  by (simp add: zero_pad_def replicate_4 example_model_def le_word32_def ieee_single_value_def)

theorem C5_cosine_similarity_zero_pads_witness:
  "length ([] :: 8 word list) mod 4 = 0 \<and> length blob_one mod 4 = 0
   \<and> cosineSimilarityScalar example_model [VBlob [], VBlob blob_one] = Inr 0
   \<and> exact example_model \<and> l2_norm (le_float32_array example_model blob_one) = 1
   \<and> cosineSimilarityScalar example_model [VBlob blob_one, VBlob blob_one] = Inr 1"
proof -
  have l: "length blob_one = 4" by (simp add: blob_one_def)
  have le: "length ([] :: 8 word list) mod 4 = 0" by simp
  have lm: "length blob_one mod 4 = 0" by (simp add: blob_one_def)
  have x: "exact example_model" by (simp add: exact_def example_model_def)
  have n: "l2_norm (le_float32_array example_model blob_one) = 1"
    by (simp add: le_float32_array_one l2_norm_def)
  have c: "cosine [1] [1] = 1" by (simp add: cosine_def l2_norm_def)
  have r: "rnd32 example_model = (\<lambda>x. x)" "rnd64 example_model = (\<lambda>x. x)"
    by (simp_all add: example_model_def)
  note t1 = C5_cosine_similarity_zero_pads [OF le lm, of example_model, THEN conjunct1]
  have 1: "cosineSimilarityScalar example_model [VBlob [], VBlob blob_one] = Inr 0"
    by (simp add: t1 l le_float32_array_pad le_float32_array_one zero_pad_same r)
  note t2 = C5_cosine_similarity_zero_pads [OF lm lm, of example_model, THEN conjunct2, rule_format]
  have "cosineSimilarityScalar example_model [VBlob blob_one, VBlob blob_one] =
          Inr (cosine (le_float32_array example_model blob_one) (le_float32_array example_model blob_one))"
    by (rule t2) (simp add: x n)
  then have 2: "cosineSimilarityScalar example_model [VBlob blob_one, VBlob blob_one] = Inr 1"
    by (simp add: le_float32_array_one c)
  from le lm x n 1 2 show ?thesis by simp
qed

lemma pad_blobs_nonempty:
  "a \<noteq> [] \<Longrightarrow> b \<noteq> [] \<Longrightarrow> fst (pad_blobs a b) \<noteq> [] \<and> snd (pad_blobs a b) \<noteq> []"
  by (simp add: pad_blobs_def Let_def)

lemma dist_empty: "a = [] \<or> b = [] \<Longrightarrow> cosineDistanceScalar fm [VBlob a, VBlob b] = Inr 1"
  by (auto simp: cosineDistanceScalar_def)

lemma dist_ragged:
  "a \<noteq> [] \<Longrightarrow> b \<noteq> [] \<Longrightarrow> length a mod 4 \<noteq> 0 \<or> length b mod 4 \<noteq> 0 \<Longrightarrow>
   cosineDistanceScalar fm [VBlob a, VBlob b] = Inl ''BLOB length must be multiple of 4 (float32)''"
  by (auto simp: cosineDistanceScalar_def)

lemma sim_ragged:
  "length a mod 4 \<noteq> 0 \<or> length b mod 4 \<noteq> 0 \<Longrightarrow>
   cosineSimilarityScalar fm [VBlob a, VBlob b] = Inl ''blobs must contain whole float32 values''"
  by (auto simp: cosineSimilarityScalar_def)

lemma dist_blobs:
  assumes "a \<noteq> []" "b \<noteq> []" "length a mod 4 = 0" "length b mod 4 = 0"
  shows "cosineDistanceScalar fm [VBlob a, VBlob b] =
     Inr (rnd64 fm (1 - dot_product fm 0
            (le_float32_array fm (zero_pad (max (length a) (length b)) a))
            (le_float32_array fm (zero_pad (max (length a) (length b)) b))))"
proof -
  let ?n = "max (length a) (length b)"
  let ?a = "zero_pad ?n a" and ?b = "zero_pad ?n b"
  have la: "length ?a = ?n" and lb: "length ?b = ?n" by (simp_all add: length_zero_pad)
  have m: "?n mod 4 = 0" using assms by (simp add: max_def)
  have fa: "bytesToFloats fm ?a = Some (le_float32_array fm ?a)"
    by (rule bytesToFloats_array) (simp add: la m)
  have fb: "bytesToFloats fm ?b = Some (le_float32_array fm ?b)"
    by (rule bytesToFloats_array) (simp add: lb m)
  have ll: "length (le_float32_array fm ?a) = length (le_float32_array fm ?b)"
    by (simp add: length_le_float32_array la lb)
  have n0: "?n \<noteq> 0" using assms by (simp add: max_def)
  have nea: "?a \<noteq> []" and neb: "?b \<noteq> []"
    using assms by (simp_all add: zero_pad_def)
  show ?thesis
    using assms la lb fa fb n0 nea neb dot_loop_product [OF ll]
    by (simp add: cosineDistanceScalar_def pad_blobs_zero_pad)
qed

text \<open>
  Claim C6, as amended. For two non-empty BLOBs, \<^verbatim>\<open>cosine_distance\<close> fails exactly
  when \<^verbatim>\<open>cosine_similarity\<close> fails, and when the similarity is \<open>s\<close> the distance
  is the \<^verbatim>\<open>float64\<close> difference \<open>1 - s\<close>. When either BLOB is empty,
  \<^verbatim>\<open>cosine_distance\<close> returns 1 without looking at the other length.
\<close>

theorem C6_distance_vs_similarity:
  "(a \<noteq> [] \<and> b \<noteq> [] \<longrightarrow>
      ((\<exists>e. cosineSimilarityScalar fm [VBlob a, VBlob b] = Inl e)
         \<longleftrightarrow> (\<exists>e. cosineDistanceScalar fm [VBlob a, VBlob b] = Inl e))
      \<and> (\<forall>s. cosineSimilarityScalar fm [VBlob a, VBlob b] = Inr s \<longrightarrow>
             cosineDistanceScalar fm [VBlob a, VBlob b] = Inr (rnd64 fm (1 - s))))
   \<and> (a = [] \<or> b = [] \<longrightarrow> cosineDistanceScalar fm [VBlob a, VBlob b] = Inr 1)"
proof (intro conjI impI)
  assume ne: "a \<noteq> [] \<and> b \<noteq> []"
  show "(\<exists>e. cosineSimilarityScalar fm [VBlob a, VBlob b] = Inl e)
         \<longleftrightarrow> (\<exists>e. cosineDistanceScalar fm [VBlob a, VBlob b] = Inl e)"
  proof (cases "length a mod 4 = 0 \<and> length b mod 4 = 0")
    case True
    then show ?thesis using ne by (simp add: sim_blobs dist_blobs)
  next
    case False
    then show ?thesis using ne by (simp add: sim_ragged dist_ragged)
  qed
  show "\<forall>s. cosineSimilarityScalar fm [VBlob a, VBlob b] = Inr s \<longrightarrow>
             cosineDistanceScalar fm [VBlob a, VBlob b] = Inr (rnd64 fm (1 - s))"
  proof (cases "length a mod 4 = 0 \<and> length b mod 4 = 0")
    case True
    then show ?thesis using ne by (simp add: sim_blobs dist_blobs)
  next
    case False
    then show ?thesis using ne by (simp add: sim_ragged)
  qed
next
  assume "a = [] \<or> b = []"
  then show "cosineDistanceScalar fm [VBlob a, VBlob b] = Inr 1" by (rule dist_empty)
qed

theorem C6_distance_vs_similarity_witness:
  "blob_one \<noteq> [] \<and> cosineSimilarityScalar example_model [VBlob blob_one, VBlob blob_one] = Inr 1
   \<and> cosineDistanceScalar example_model [VBlob blob_one, VBlob blob_one] = Inr 0
   \<and> cosineDistanceScalar example_model [VBlob [], VBlob blob_ragged] = Inr 1"
proof -
  have ne: "blob_one \<noteq> []" by (simp add: blob_one_def)
  have lm: "length blob_one mod 4 = 0" by (simp add: blob_one_def)
  have l: "length blob_one = 4" by (simp add: blob_one_def)
  have r: "rnd32 example_model = (\<lambda>x. x)" "rnd64 example_model = (\<lambda>x. x)"
    by (simp_all add: example_model_def)
  have s: "cosineSimilarityScalar example_model [VBlob blob_one, VBlob blob_one] = Inr 1"
    by (simp add: sim_blobs [OF lm lm] zero_pad_same le_float32_array_one r)
  note t = C6_distance_vs_similarity [of blob_one blob_one example_model, THEN conjunct1, rule_format]
  have "cosineDistanceScalar example_model [VBlob blob_one, VBlob blob_one]
          = Inr (rnd64 example_model (1 - 1))"
    using t ne s by blast
  then have d: "cosineDistanceScalar example_model [VBlob blob_one, VBlob blob_one] = Inr 0"
    by (simp add: r)
  have e: "cosineDistanceScalar example_model [VBlob [], VBlob blob_ragged] = Inr 1"
    using C6_distance_vs_similarity [of "[]" blob_ragged example_model] by simp
  from ne s d e show ?thesis by simp
qed

text \<open>
  The claim as stated fails on the pair of an empty BLOB and a BLOB of three bytes:
  \<^verbatim>\<open>cosine_similarity\<close> rejects the lengths, \<^verbatim>\<open>cosine_distance\<close> returns 1.
\<close>

theorem C6_same_failures_counterexample:
  "cosineSimilarityScalar example_model [VBlob [], VBlob blob_ragged]
     = Inl ''blobs must contain whole float32 values''
   \<and> cosineDistanceScalar example_model [VBlob [], VBlob blob_ragged] = Inr 1"
  by (simp add: cosineSimilarityScalar_def cosineDistanceScalar_def blob_ragged_def)

section \<open>Properties of the embedder\<close>

























section \<open>Properties of persistent memory\<close>

lemma sql_statements_differ: "sql_order_limit \<noteq> sql_channel @ sql_order_limit"
  by (simp add: sql_order_limit_def sql_channel_def)

lemma QueryHistory_select:
  "QueryHistory fm m channelID query topk0 =
     (case embedder m query of
        Inl err \<Rightarrow> Inl (''embedding query: '' @ err)
      | Inr emb \<Rightarrow>
          (case select_history fm (db m) (floatsToBytes fm emb) (threshold m)
                  (if channelID \<noteq> '''' then Some channelID else None)
                  (if topk0 \<le> 0 then topk m else topk0) of
             Inl err \<Rightarrow> Inl (''querying memory: '' @ err)
           | Inr rows \<Rightarrow> Inr (map scan_item rows)))"
  using sql_statements_differ
  by (simp add: QueryHistory_def db_Query_def Let_def split: sum.splits)

lemma with_similarity_rows:
  "with_similarity fm q rs = Inr scored \<Longrightarrow>
   map fst scored = rs \<and> (\<forall>(r, s) \<in> set scored. row_similarity fm q r = Inr s)"
  by (induction rs arbitrary: scored) (auto split: sum.splits)

lemma with_similarity_filter_length:
  "with_similarity fm q rs = Inr scored \<Longrightarrow>
   length (filter (\<lambda>(r, s). s \<ge> thr) scored)
     = length (filter (\<lambda>r. case row_similarity fm q r of Inl e \<Rightarrow> False | Inr s \<Rightarrow> s \<ge> thr) rs)"
  by (induction rs arbitrary: scored) (auto split: sum.splits)

lemma set_sql_limit: "set (sql_limit k xs) \<subseteq> set xs"
  by (auto simp: sql_limit_def dest: in_set_takeD)

lemma length_sql_limit: "0 \<le> k \<Longrightarrow> length (sql_limit k xs) = min (nat k) (length xs)"
  by (simp add: sql_limit_def)

lemma sorted_wrt_take: "sorted_wrt P xs \<Longrightarrow> sorted_wrt P (take n xs)"
  by (metis append_take_drop_id sorted_wrt_append)

lemma sorted_wrt_sql_limit: "sorted_wrt P xs \<Longrightarrow> sorted_wrt P (sql_limit k xs)"
  by (simp add: sql_limit_def sorted_wrt_take)

lemma sorted_desc_sort_key:
  "sorted_wrt (\<lambda>a b. snd a \<ge> (snd b :: real)) (sort_key (\<lambda>(r, s). - s) xs)"
proof -
  have "sorted (map (\<lambda>(r, s). - s) (sort_key (\<lambda>(r, s). - s) xs))"
    by (rule sorted_sort_key)
  then show ?thesis
    by (simp add: sorted_wrt_map sorted_wrt_iff_nth_less case_prod_beta sorted_iff_nth_mono_less)
qed

lemma NewPersistMemory_fields:
  "NewPersistMemory fm memConf onnxemb opened = Some m0 \<Longrightarrow>
   threshold m0 = (if Threshold memConf \<le> 0 then rnd32 fm (87 / 100) else Threshold memConf)
   \<and> topk m0 = (if TopK memConf \<le> 0 then 10 else TopK memConf)
   \<and> onnxemb = Inr (embedder m0)"
  by (auto simp: NewPersistMemory_def split: if_splits sum.splits)

lemma select_history_props:
  assumes "select_history fm rows q thr chan k = Inr sel" and "0 \<le> k"
  shows "(\<forall>(r, s) \<in> set sel. s \<ge> thr \<and> r \<in> set rows \<and> row_similarity fm q r = Inr s
            \<and> (\<forall>c. chan = Some c \<longrightarrow> channel_id r = c))
     \<and> sorted_wrt (\<lambda>a b. snd a \<ge> snd b) sel
     \<and> length sel = min (nat k) (length (filter
          (\<lambda>r. (\<forall>c. chan = Some c \<longrightarrow> channel_id r = c)
               \<and> (case row_similarity fm q r of Inl e \<Rightarrow> False | Inr s \<Rightarrow> s \<ge> thr)) rows))"
proof -
  define scanned where "scanned = (case chan of None \<Rightarrow> rows | Some c \<Rightarrow> filter (\<lambda>r. channel_id r = c) rows)"
  from assms(1) obtain scored where w: "with_similarity fm q scanned = Inr scored"
    and sel: "sel = sql_limit k (sort_key (\<lambda>(r, s). - s) (filter (\<lambda>(r, s). s \<ge> thr) scored))"
    by (auto simp: select_history_def scanned_def Let_def split: sum.splits)
  have sc: "map fst scored = scanned" "\<forall>(r, s) \<in> set scored. row_similarity fm q r = Inr s"
    using with_similarity_rows [OF w] by auto
  have scanned_set: "\<forall>r \<in> set scanned. r \<in> set rows \<and> (\<forall>c. chan = Some c \<longrightarrow> channel_id r = c)"
    by (auto simp: scanned_def split: option.splits)
  have sub: "set sel \<subseteq> set (filter (\<lambda>(r, s). s \<ge> thr) scored)"
    unfolding sel using set_sql_limit [of k] by (metis set_sort)
  have 1: "\<forall>(r, s) \<in> set sel. s \<ge> thr \<and> r \<in> set rows \<and> row_similarity fm q r = Inr s
            \<and> (\<forall>c. chan = Some c \<longrightarrow> channel_id r = c)"
  proof (clarify)
    fix r s assume "(r, s) \<in> set sel"
    with sub have in_sc: "(r, s) \<in> set scored" and ge: "s \<ge> thr" by auto
    from in_sc have "r \<in> set (map fst scored)" by force
    then have "r \<in> set scanned" using sc(1) by simp
    with scanned_set in_sc sc(2) ge
    show "s \<ge> thr \<and> r \<in> set rows \<and> row_similarity fm q r = Inr s
            \<and> (\<forall>c. chan = Some c \<longrightarrow> channel_id r = c)" by auto
  qed
  have 2: "sorted_wrt (\<lambda>a b. snd a \<ge> snd b) sel"
    unfolding sel by (rule sorted_wrt_sql_limit) (rule sorted_desc_sort_key)
  have f: "filter (\<lambda>r. case row_similarity fm q r of Inl e \<Rightarrow> False | Inr s \<Rightarrow> s \<ge> thr) scanned
         = filter (\<lambda>r. (\<forall>c. chan = Some c \<longrightarrow> channel_id r = c)
               \<and> (case row_similarity fm q r of Inl e \<Rightarrow> False | Inr s \<Rightarrow> s \<ge> thr)) rows"
    by (cases chan) (auto simp: scanned_def intro: filter_cong)
  have 3: "length sel = min (nat k) (length (filter
          (\<lambda>r. (\<forall>c. chan = Some c \<longrightarrow> channel_id r = c)
               \<and> (case row_similarity fm q r of Inl e \<Rightarrow> False | Inr s \<Rightarrow> s \<ge> thr)) rows))"
    unfolding sel using assms(2) with_similarity_filter_length [OF w, of thr]
    by (simp add: length_sql_limit f)
  from 1 2 3 show ?thesis by blast
qed

text \<open>
  Claim C1. Take a persistent memory built by \<^verbatim>\<open>NewPersistMemory\<close> from a
  configuration, holding any rows, and a call of \<^verbatim>\<open>QueryHistory\<close> that succeeds.
  Every returned item has a similarity at least the threshold, which is the configured
  one, or the \<^verbatim>\<open>float32\<close> constant 0.87 when the configured value is not positive.
  The items are in non-increasing order of similarity. There are at most \<open>topK\<close> of
  them, where a \<open>topK\<close> that is not positive stands for the configured value, itself
  10 when it is not positive. Every item is the role, content and timestamp of a stored
  row, of the given channel when the channel is not empty. The number of items is the
  limit or the number of rows over the threshold, counted among the rows of the
  channel when the channel is not empty and among all rows when it is empty: the
  channel filter is applied exactly when the channel is not the empty string.
\<close>

theorem C1_QueryHistory_results:
  assumes new: "NewPersistMemory fm memConf onnxemb opened = Some m0"
      and qh: "QueryHistory fm (m0\<lparr>db := rows\<rparr>) channel queryText topK = Inr results"
  shows "(\<forall>it \<in> set results.
            Similarity it \<ge> (if Threshold memConf \<le> 0 then rnd32 fm (87 / 100) else Threshold memConf))
     \<and> sorted_wrt (\<lambda>a b. Similarity a \<ge> Similarity b) results
     \<and> int (length results) \<le> (if topK \<le> 0 then (if TopK memConf \<le> 0 then 10 else TopK memConf) else topK)
     \<and> (\<forall>it \<in> set results. \<exists>r \<in> set rows.
            mi_Role it = row_role r \<and> Text it = row_content r \<and> mi_Timestamp it = row_timestamp r
            \<and> (channel \<noteq> '''' \<longrightarrow> channel_id r = channel))
     \<and> (\<exists>emb. embedder m0 queryText = Inr emb
          \<and> length results =
              min (nat (if topK \<le> 0 then (if TopK memConf \<le> 0 then 10 else TopK memConf) else topK))
                (length (filter
                   (\<lambda>r. (channel = '''' \<or> channel_id r = channel)
                      \<and> (case row_similarity fm (floatsToBytes fm emb) r of
                            Inl e \<Rightarrow> False
                          | Inr s \<Rightarrow> s \<ge> (if Threshold memConf \<le> 0 then rnd32 fm (87 / 100)
                                            else Threshold memConf))) rows)))"
proof -
  let ?thr = "if Threshold memConf \<le> 0 then rnd32 fm (87 / 100) else Threshold memConf"
  let ?k = "if topK \<le> 0 then (if TopK memConf \<le> 0 then 10 else TopK memConf) else topK"
  let ?chan = "if channel \<noteq> '''' then Some channel else None"
  have fields: "threshold m0 = ?thr" "topk m0 = (if TopK memConf \<le> 0 then 10 else TopK memConf)"
    using NewPersistMemory_fields [OF new] by simp_all
  have k: "(if topK \<le> 0 then topk m0 else topK) = ?k" by (simp add: fields)
  have kpos: "0 \<le> ?k" by simp
  from qh obtain emb sel where emb: "embedder m0 queryText = Inr emb"
    and sel: "select_history fm rows (floatsToBytes fm emb) ?thr ?chan ?k = Inr sel"
    and res: "results = map scan_item sel"
    unfolding QueryHistory_select using fields
    by (auto split: sum.splits if_splits)
  note p = select_history_props [OF sel kpos]
  have 1: "\<forall>it \<in> set results. Similarity it \<ge> ?thr"
    using p res by (auto simp: scan_item_def)
  have 2: "sorted_wrt (\<lambda>a b. Similarity a \<ge> Similarity b) results"
    using p unfolding res by (simp add: sorted_wrt_map scan_item_def)
  have len: "length results = min (nat ?k) (length (filter
          (\<lambda>r. (\<forall>c. ?chan = Some c \<longrightarrow> channel_id r = c)
               \<and> (case row_similarity fm (floatsToBytes fm emb) r of Inl e \<Rightarrow> False | Inr s \<Rightarrow> s \<ge> ?thr)) rows))"
    using p res by simp
  have 3: "int (length results) \<le> ?k"
    using len kpos by linarith
  have 4: "\<forall>it \<in> set results. \<exists>r \<in> set rows.
            mi_Role it = row_role r \<and> Text it = row_content r \<and> mi_Timestamp it = row_timestamp r
            \<and> (channel \<noteq> '''' \<longrightarrow> channel_id r = channel)"
  proof
    fix it assume "it \<in> set results"
    then obtain r s where rs: "(r, s) \<in> set sel" and it: "it = scan_item (r, s)"
      unfolding res by auto
    from p rs have "r \<in> set rows" and "\<forall>c. ?chan = Some c \<longrightarrow> channel_id r = c" by auto
    then show "\<exists>r \<in> set rows.
            mi_Role it = row_role r \<and> Text it = row_content r \<and> mi_Timestamp it = row_timestamp r
            \<and> (channel \<noteq> '''' \<longrightarrow> channel_id r = channel)"
      using it by (auto simp: scan_item_def)
  qed
  have same: "(\<lambda>r. (\<forall>c. ?chan = Some c \<longrightarrow> channel_id r = c)
               \<and> (case row_similarity fm (floatsToBytes fm emb) r of Inl e \<Rightarrow> False | Inr s \<Rightarrow> s \<ge> ?thr))
       = (\<lambda>r. (channel = '''' \<or> channel_id r = channel)
               \<and> (case row_similarity fm (floatsToBytes fm emb) r of Inl e \<Rightarrow> False | Inr s \<Rightarrow> s \<ge> ?thr))"
    by auto
  have 5: "\<exists>emb. embedder m0 queryText = Inr emb
          \<and> length results = min (nat ?k) (length (filter
                   (\<lambda>r. (channel = '''' \<or> channel_id r = channel)
                      \<and> (case row_similarity fm (floatsToBytes fm emb) r of
                            Inl e \<Rightarrow> False | Inr s \<Rightarrow> s \<ge> ?thr)) rows))"
    using emb len unfolding same by blast
  from 1 2 3 4 5 show ?thesis by blast
qed

lemma floatsToBytes_one: "floatsToBytes example_model [1] = blob_one"
  by (simp add: floatsToBytes_def example_model_def example_bits_def LittleEndian_PutUint32_def blob_one_def)

lemma Float32frombits_zero: "Float32frombits example_model (le_word32 0 0 0 0) = 0"
  by (simp add: example_model_def le_word32_def ieee_single_value_def)

lemma example_model_exact:
  "rnd32 example_model = (\<lambda>x. x)" "rnd64 example_model = (\<lambda>x. x)"
  by (simp_all add: example_model_def)

lemma row_similarity_a: "row_similarity example_model blob_one c1_row_a = Inr 1"
proof -
  have lm: "length blob_one mod 4 = 0" by (simp add: blob_one_def)
  show ?thesis
    by (simp add: row_similarity_def c1_row_a_def sim_blobs [OF lm lm] zero_pad_same
          le_float32_array_one example_model_exact)
qed

lemma row_similarity_c: "row_similarity example_model blob_one c1_row_c = Inr 0"
proof -
  have lm: "length blob_one mod 4 = 0" by (simp add: blob_one_def)
  have lz: "length ([0, 0, 0, 0] :: 8 word list) mod 4 = 0" by simp
  have l: "length blob_one = 4" by (simp add: blob_one_def)
  show ?thesis
    by (simp add: row_similarity_def c1_row_c_def sim_blobs [OF lz lm] l zero_pad_same
          le_float32_array_one Float32frombits_zero example_model_exact)
qed

lemma c1_new:
  "NewPersistMemory example_model c1_config (Inr c1_embed) (Inr []) = Some c1_memory"
  by (simp add: NewPersistMemory_def c1_config_def c1_memory_def example_model_exact)

lemma c1_query:
  "QueryHistory example_model (c1_memory\<lparr>db := c1_rows\<rparr>) ''c1'' ''what is the password'' 0
     = Inr c1_results"
proof -
  have f: "filter (\<lambda>r. channel_id r = ''c1'') c1_rows = [c1_row_a, c1_row_c]"
    by (simp add: c1_rows_def c1_row_a_def c1_row_b_def c1_row_c_def)
  have s: "select_history example_model c1_rows blob_one (87 / 100) (Some ''c1'') 10
           = Inr [(c1_row_a, 1)]"
    by (simp add: select_history_def f row_similarity_a row_similarity_c sql_limit_def)
  show ?thesis
    unfolding QueryHistory_select
    by (simp add: c1_memory_def c1_embed_def floatsToBytes_one s scan_item_def c1_results_def c1_row_a_def)
qed

theorem C1_QueryHistory_results_witness:
  "NewPersistMemory example_model c1_config (Inr c1_embed) (Inr []) = Some c1_memory
   \<and> QueryHistory example_model (c1_memory\<lparr>db := c1_rows\<rparr>) ''c1'' ''what is the password'' 0
       = Inr c1_results
   \<and> list_all (\<lambda>it. Similarity it \<ge> 87 / 100) c1_results
   \<and> int (length c1_results) \<le> 10"
proof -
  note t = C1_QueryHistory_results [OF c1_new c1_query]
  have r: "rnd32 example_model (87 / 100) = 87 / 100" by (simp add: example_model_exact)
  have 1: "list_all (\<lambda>it. Similarity it \<ge> 87 / 100) c1_results"
    using t [THEN conjunct1] by (simp add: c1_config_def r list_all_iff)
  have 2: "int (length c1_results) \<le> 10"
    using t [THEN conjunct2, THEN conjunct2, THEN conjunct1] by (simp add: c1_config_def)
  from c1_new c1_query 1 2 show ?thesis by blast
qed

section \<open>Properties of the agent loop\<close>

lemma tool_loop_calls:
  "chat_calls (tool_loop c n i msgs lt w calls) \<le> calls + nat (n - i)"
proof (induction c n i msgs lt w calls rule: tool_loop.induct)
  case (1 c maxIterations iteration messages lastTool w calls)
  show ?case
  proof (cases "iteration < maxIterations")
    case False
    then show ?thesis by (subst tool_loop.simps) simp
  next
    case True
    then have pos: "Suc calls + nat (maxIterations - (iteration + 1)) \<le> calls + nat (maxIterations - iteration)"
      by simp
    show ?thesis
    proof (cases "fst (provider_Chat c w messages (tools_Definitions c))")
      case (Inl err)
      with True show ?thesis by (subst tool_loop.simps) simp
    next
      case (Inr resp)
      show ?thesis
      proof (cases "HasToolCalls resp")
        case False
        with True Inr show ?thesis by (subst tool_loop.simps) simp
      next
        case tc: True
        obtain m2 l2 w2 where ex: "execute_tool_calls c (ToolCalls resp)
                       (messages @ [\<lparr>pm_Role = ''assistant'', pm_Content = resp_Content resp,
                                      pm_ToolCalls = ToolCalls resp, pm_ToolCallID = ''''\<rparr>])
                       lastTool (snd (provider_Chat c w messages (tools_Definitions c))) = (m2, l2, w2)"
          by (metis prod_cases3)
        have "chat_calls (tool_loop c maxIterations (iteration + 1) m2 l2 w2 (Suc calls))
                \<le> Suc calls + nat (maxIterations - (iteration + 1))"
          using "1.IH" [OF True Inr tc ex [symmetric] refl] .
        with pos have "chat_calls (tool_loop c maxIterations (iteration + 1) m2 l2 w2 (Suc calls))
                \<le> calls + nat (maxIterations - iteration)" by linarith
        then show ?thesis
          using True Inr tc ex by (subst tool_loop.simps) simp
      qed
    qed
  qed
qed

lemma direct_loop_calls:
  "direct_calls (direct_loop c n i msgs lt w calls) \<le> calls + nat (n - i)"
proof (induction c n i msgs lt w calls rule: direct_loop.induct)
  case (1 c maxIterations iteration messages lastTool w calls)
  show ?case
  proof (cases "iteration < maxIterations")
    case False
    then show ?thesis by (subst direct_loop.simps) simp
  next
    case True
    then have pos: "Suc calls + nat (maxIterations - (iteration + 1)) \<le> calls + nat (maxIterations - iteration)"
      by simp
    show ?thesis
    proof (cases "fst (provider_Chat c w messages (tools_Definitions c))")
      case (Inl err)
      with True show ?thesis by (subst direct_loop.simps) simp
    next
      case (Inr resp)
      show ?thesis
      proof (cases "HasToolCalls resp")
        case False
        with True Inr show ?thesis by (subst direct_loop.simps) simp
      next
        case tc: True
        then have ntc: "\<not> \<not> HasToolCalls resp" by simp
        obtain m2 l2 w2 where ex: "execute_tool_calls c (ToolCalls resp)
                       (messages @ [\<lparr>pm_Role = ''assistant'', pm_Content = resp_Content resp,
                                      pm_ToolCalls = ToolCalls resp, pm_ToolCallID = ''''\<rparr>])
                       lastTool (snd (provider_Chat c w messages (tools_Definitions c))) = (m2, l2, w2)"
          by (metis prod_cases3)
        have "direct_calls (direct_loop c maxIterations (iteration + 1) m2 l2 w2 (Suc calls))
                \<le> Suc calls + nat (maxIterations - (iteration + 1))"
          using "1.IH" [OF True Inr ntc ex [symmetric] refl] .
        with pos have "direct_calls (direct_loop c maxIterations (iteration + 1) m2 l2 w2 (Suc calls))
                \<le> calls + nat (maxIterations - iteration)" by linarith
        then show ?thesis
          using True Inr tc ex by (subst direct_loop.simps) simp
      qed
    qed
  qed
qed


lemma chat_turn_calls:
  "provider_calls (chat_turn fm c e msg a) = chat_calls (fst (turn_loop fm c msg a))"
  by (simp add: chat_turn_def Let_def split: prod.splits)

lemma turn_loop_is_tool_loop:
  "\<exists>messages w0. fst (turn_loop fm c msg a) = tool_loop c (al_maxIterations a) 0 messages '''' w0 0"
  by (auto simp: turn_loop_def Let_def split: prod.splits)

text \<open>
  Claim C4. For every inbound message the agent loop calls \<^verbatim>\<open>provider.Chat\<close> at most
  \<^verbatim>\<open>maxIterations\<close> times (not at all when \<^verbatim>\<open>maxIterations\<close> is not positive, or
  when the remember pattern matches), and so does \<^verbatim>\<open>ProcessDirect\<close>.
\<close>

theorem C4_provider_calls_bounded:
  "provider_calls (handle_inbound fm c e msg a) \<le> nat (al_maxIterations a)
   \<and> direct_calls (ProcessDirect c content a) \<le> nat (al_maxIterations a)"
proof
  show "provider_calls (handle_inbound fm c e msg a) \<le> nat (al_maxIterations a)"
  proof (cases "rememberRE (TrimSpace (in_Content msg))")
    case (Some captured)
    then show ?thesis
      by (simp add: handle_inbound_def remember_turn_def Let_def split: prod.splits)
  next
    case None
    obtain messages w0 where
      t: "fst (turn_loop fm c msg a) = tool_loop c (al_maxIterations a) 0 messages '''' w0 0"
      using turn_loop_is_tool_loop [of fm c msg a] by blast
    have "chat_calls (tool_loop c (al_maxIterations a) 0 messages '''' w0 0)
            \<le> 0 + nat (al_maxIterations a - 0)"
      by (rule tool_loop_calls)
    then show ?thesis
      using None t by (simp add: handle_inbound_def chat_turn_calls)
  qed
  have "direct_calls (direct_loop c (al_maxIterations a) 0
          (BuildMessages (al_context a) [] content ''cli'' ''direct'' (GetMemoryContext (al_memory a)) [])
          '''' (tools_SetContext c ''cli'' ''direct'' (al_world a)) 0)
        \<le> 0 + nat (al_maxIterations a - 0)"
    by (rule direct_loop_calls)
  then show "direct_calls (ProcessDirect c content a) \<le> nat (al_maxIterations a)"
    by (simp add: ProcessDirect_def Let_def)
qed

lemma rememberRE_to: "rememberRE (TrimSpace ''  remember to buy milk '') = Some ''buy milk''"
  by (simp add: rememberRE_def TrimSpace_def isSpace_def isSpaceRE_def to_then_rest_def rest_of_line_def)

lemma rememberRE_plain: "rememberRE (TrimSpace ''Remember   the milk'') = Some ''the milk''"
  by (simp add: rememberRE_def TrimSpace_def isSpace_def isSpaceRE_def to_then_rest_def rest_of_line_def)

lemma rememberRE_only_to: "rememberRE (TrimSpace ''remember to'') = Some ''to''"
  by (simp add: rememberRE_def TrimSpace_def isSpace_def isSpaceRE_def to_then_rest_def rest_of_line_def)

lemma rememberRE_no_match: "rememberRE (TrimSpace ''hello'') = None"
  by (simp add: rememberRE_def TrimSpace_def isSpace_def isSpaceRE_def to_then_rest_def rest_of_line_def)















































end
